theory Spec2Isabelle
  imports Main "HOL-Library.Word"
begin

unbundle bit_operations_syntax

section \<open>JavaScript values\<close>

text \<open>
  The values the service worker handles: what \<^verbatim>\<open>event.data.json()\<close> returns, what is
  passed to \<^verbatim>\<open>showNotification\<close>, \<^verbatim>\<open>postMessage\<close> and the console. A number is the
  bit pattern of its IEEE-754 double. An object is the list of its own properties; a
  string is a \<^typ>\<open>string\<close>, and a literal of the source outside ASCII is written as the
  UTF-8 bytes it has in the source file.
\<close>

datatype jsval =
    JUndefined
  | JNull
  | JBool bool
  | JNum "64 word"
  | JStr string
  | JArr "jsval list"
  | JObj "(string \<times> jsval) list"

text \<open>A thrown value: an Error object with its \<^verbatim>\<open>name\<close> and \<^verbatim>\<open>message\<close>.\<close>

datatype js_error = JsError (err_name: string) (err_message: string)

text \<open>The state a promise settles in.\<close>

datatype settled = Fulfilled | Rejected js_error

text \<open>
  ToBoolean: \<^verbatim>\<open>undefined\<close>, \<^verbatim>\<open>null\<close>, \<^verbatim>\<open>false\<close>, \<^verbatim>\<open>+0\<close>, \<^verbatim>\<open>-0\<close>, \<^verbatim>\<open>NaN\<close> and
  the empty string are falsy, every object is truthy.
\<close>

definition is_zero_or_nan :: "64 word \<Rightarrow> bool" where
  "is_zero_or_nan w =
     (w AND 0x7FFFFFFFFFFFFFFF = 0 \<or> 0x7FF0000000000000 < w AND 0x7FFFFFFFFFFFFFFF)"

fun truthy :: "jsval \<Rightarrow> bool" where
  "truthy JUndefined = False"
| "truthy JNull = False"
| "truthy (JBool b) = b"
| "truthy (JNum w) = (if is_zero_or_nan w then False else True)"
| "truthy (JStr s) = (if s = [] then False else True)"
| "truthy (JArr xs) = True"
| "truthy (JObj kvs) = True"

text \<open>The operator \<^verbatim>\<open>a || b\<close>.\<close>

definition js_or :: "jsval \<Rightarrow> jsval \<Rightarrow> jsval" where
  "js_or a b = (if truthy a then a else b)"

text \<open>
  The property read \<^verbatim>\<open>v.k\<close>. On \<^verbatim>\<open>null\<close> and \<^verbatim>\<open>undefined\<close> it throws a TypeError
  (the message text is the engine's). On an object it is the own property or
  \<^verbatim>\<open>undefined\<close>. The source reads only \<^verbatim>\<open>title\<close>, \<^verbatim>\<open>body\<close> and \<^verbatim>\<open>data\<close>, which no
  prototype of a primitive or an array defines, so there the read is \<^verbatim>\<open>undefined\<close>.
\<close>

fun get_prop :: "jsval \<Rightarrow> string \<Rightarrow> js_error + jsval" where
  "get_prop JUndefined k =
     Inl (JsError ''TypeError'' (''Cannot read properties of undefined (reading '' @ k @ '')''))"
| "get_prop JNull k =
     Inl (JsError ''TypeError'' (''Cannot read properties of null (reading '' @ k @ '')''))"
| "get_prop (JObj kvs) k = Inr (case map_of kvs k of Some v \<Rightarrow> v | None \<Rightarrow> JUndefined)"
| "get_prop (JBool b) k = Inr JUndefined"
| "get_prop (JNum w) k = Inr JUndefined"
| "get_prop (JStr s) k = Inr JUndefined"
| "get_prop (JArr xs) k = Inr JUndefined"

text \<open>An Error object as a value handed to the console.\<close>

definition err_val :: "js_error \<Rightarrow> jsval" where
  "err_val e = JObj [(''name'', JStr (err_name e)), (''message'', JStr (err_message e))]"

section \<open>Effects\<close>

text \<open>
  What a handler does to the host, in the order it does it: console output, a call of
  \<^verbatim>\<open>sendLogToApp(logType, message, data)\<close>, a call of
  \<^verbatim>\<open>self.registration.showNotification(title, options)\<close>, a message delivered to a
  client (by its id), and the calls of the lifecycle, window and network interfaces. A
  call stands in the trace whether it succeeds or not; a \<open>PostMessage\<close> stands for a
  \<^verbatim>\<open>postMessage\<close> that did not throw. \<open>FocusClient\<close> carries the client whose
  \<^verbatim>\<open>focus()\<close> is called.

  A client has an id, the URL it was created with, its type, the origin the host gives
  it (a window at \<^verbatim>\<open>about:blank\<close> has the origin of the page that opened it), and is
  controlled by the worker or not.
\<close>

datatype request = Request (req_method: string) (req_url: string)

datatype client_type = WindowClient | WorkerClient | SharedWorkerClient

record client =
  client_id :: nat
  client_url :: string
  client_origin :: string
  client_kind :: client_type
  controlled :: bool

datatype effect =
    ConsoleLog "jsval list"
  | ConsoleError "jsval list"
  | SendLog string string jsval
  | ShowNotification jsval jsval
  | PostMessage nat jsval
  | SkipWaiting
  | ClientsClaim
  | SetTimeout string nat
  | CloseNotification
  | FocusClient client
  | OpenWindow string
  | NetFetch request

text \<open>The notifications a trace asks the host to show, in order.\<close>

fun renders :: "effect list \<Rightarrow> (jsval \<times> jsval) list" where
  "renders [] = []"
| "renders (ShowNotification t opts # es) = (t, opts) # renders es"
| "renders (e # es) = renders es"

section \<open>Literals of the source outside ASCII\<close>

definition emoji_cross :: string where
  "emoji_cross = [CHR 0xE2, CHR 0x9D, CHR 0x8C]"

definition emoji_check :: string where
  "emoji_check = [CHR 0xE2, CHR 0x9C, CHR 0x85]"

definition emoji_warning :: string where
  "emoji_warning = [CHR 0xE2, CHR 0x9A, CHR 0xA0, CHR 0xEF, CHR 0xB8, CHR 0x8F]"

definition emoji_bell :: string where
  "emoji_bell = [CHR 0xF0, CHR 0x9F, CHR 0x94, CHR 0x94]"

definition emoji_lock :: string where
  "emoji_lock = [CHR 0xF0, CHR 0x9F, CHR 0x94, CHR 0x92]"

definition emoji_package :: string where
  "emoji_package = [CHR 0xF0, CHR 0x9F, CHR 0x93, CHR 0xA6]"

definition emoji_phone :: string where
  "emoji_phone = [CHR 0xF0, CHR 0x9F, CHR 0x93, CHR 0xB1]"

definition emoji_siren :: string where
  "emoji_siren = [CHR 0xF0, CHR 0x9F, CHR 0x9A, CHR 0xA8]"

definition emoji_test_tube :: string where
  "emoji_test_tube = [CHR 0xF0, CHR 0x9F, CHR 0xA7, CHR 0xAA]"

definition emoji_arrows :: string where
  "emoji_arrows = [CHR 0xF0, CHR 0x9F, CHR 0x94, CHR 0x84]"

definition emoji_broom :: string where
  "emoji_broom = [CHR 0xF0, CHR 0x9F, CHR 0xA7, CHR 0xB9]"

section \<open>The push event and the notification host\<close>

text \<open>
  \<^verbatim>\<open>event.data\<close> is \<^verbatim>\<open>null\<close> or a PushMessageData, whose \<^verbatim>\<open>json()\<close> and \<^verbatim>\<open>text()\<close>
  return a value or throw. The host answers \<^verbatim>\<open>Notification.permission\<close> (taken not
  to change while one event is handled) and each \<^verbatim>\<open>showNotification\<close> call, which
  resolves (\<open>None\<close>) or rejects, and may answer a later call differently: its state
  \<open>'h\<close> is passed along.
\<close>

datatype push_data = PushData (json_result: "js_error + jsval") (text_result: "js_error + string")

record 'h notif_host =
  permission :: string
  showNotification :: "'h \<Rightarrow> jsval \<Rightarrow> jsval \<Rightarrow> js_error option \<times> 'h"

section \<open>src/public/sw.js: the push handler\<close>

text \<open>Lines 124 to 143: the payload decode, with the log calls it makes.\<close>

definition decode_v3 :: "push_data option \<Rightarrow> effect list \<times> jsval" where
  "decode_v3 event_data =
     (case event_data of
        Some d \<Rightarrow>
          (case json_result d of
             Inr v \<Rightarrow>
               ([SendLog ''success'' (emoji_package @ '' Successfully parsed push data'') v], v)
           | Inl e \<Rightarrow>
               (case text_result d of
                  Inr t \<Rightarrow>
                    ([SendLog ''error'' (emoji_cross @ '' Failed to parse JSON'')
                        (JStr (err_message e)),
                      SendLog ''warning'' (emoji_warning @ '' Using text fallback'') JNull],
                     JObj [(''body'', JStr t)])
                | Inl textError \<Rightarrow>
                    ([SendLog ''error'' (emoji_cross @ '' Failed to parse JSON'')
                        (JStr (err_message e)),
                      SendLog ''error'' (emoji_cross @ '' Failed to parse text'')
                        (JStr (err_message textError))],
                     JObj [])))
      | None \<Rightarrow>
          ([SendLog ''warning'' (emoji_warning @ '' No data in push event'') JNull], JObj []))"

text \<open>Lines 146 to 154: the title and the options bundle.\<close>

definition derive_v3 :: "jsval \<Rightarrow> js_error + jsval \<times> jsval" where
  "derive_v3 data =
     (case get_prop data ''title'' of
        Inl e \<Rightarrow> Inl e
      | Inr t \<Rightarrow>
     (case get_prop data ''body'' of
        Inl e \<Rightarrow> Inl e
      | Inr b \<Rightarrow>
     (case get_prop data ''data'' of
        Inl e \<Rightarrow> Inl e
      | Inr d \<Rightarrow>
          Inr (js_or t (JStr ''Medication Reminder''),
               JObj [(''body'', js_or b (JStr ''It's time for a medication dose'')),
                     (''icon'', JStr ''/navikinder-logo-256.png''),
                     (''badge'', JStr ''/navikinder-logo-256.png''),
                     (''data'', js_or d (JObj [])),
                     (''requireInteraction'', JBool True)]))))"

text \<open>Lines 158 to 178: the render attempt and its fallback.\<close>

definition render_v3 :: "'h notif_host \<Rightarrow> 'h \<Rightarrow> jsval \<Rightarrow> jsval \<Rightarrow> effect list \<times> 'h" where
  "render_v3 host h title options =
     (case showNotification host h title options of
        (None, h1) \<Rightarrow>
          ([ShowNotification title options,
            SendLog ''success'' (emoji_check @ '' Notification shown successfully!'') JNull],
           h1)
      | (Some error, h1) \<Rightarrow>
          (case showNotification host h1 (JStr ''Medication Reminder'')
                  (JObj [(''body'', JStr ''It's time for a medication dose''),
                         (''icon'', JStr ''/navikinder-logo-256.png'')]) of
             (None, h2) \<Rightarrow>
               ([ShowNotification title options,
                 SendLog ''error'' (emoji_cross @ '' showNotification failed'')
                   (JObj [(''name'', JStr (err_name error)),
                          (''message'', JStr (err_message error)),
                          (''permission'', JStr (permission host))]),
                 ShowNotification (JStr ''Medication Reminder'')
                   (JObj [(''body'', JStr ''It's time for a medication dose''),
                          (''icon'', JStr ''/navikinder-logo-256.png'')]),
                 SendLog ''success'' (emoji_check @ '' Fallback notification shown'') JNull],
                h2)
           | (Some fallbackError, h2) \<Rightarrow>
               ([ShowNotification title options,
                 SendLog ''error'' (emoji_cross @ '' showNotification failed'')
                   (JObj [(''name'', JStr (err_name error)),
                          (''message'', JStr (err_message error)),
                          (''permission'', JStr (permission host))]),
                 ShowNotification (JStr ''Medication Reminder'')
                   (JObj [(''body'', JStr ''It's time for a medication dose''),
                          (''icon'', JStr ''/navikinder-logo-256.png'')]),
                 SendLog ''error'' (emoji_cross @ '' Even fallback notification failed'')
                   (JStr (err_message fallbackError))],
                h2)))"

text \<open>
  Lines 117 to 181: the two log calls made at once, then the task handed to
  \<^verbatim>\<open>event.waitUntil\<close>. The result is the trace, the state the task's promise settles
  in, and the host's state. A property read that throws is outside every
  \<^verbatim>\<open>try\<close>, so it rejects the task.
\<close>

definition push_handler_v3 ::
  "'h notif_host \<Rightarrow> 'h \<Rightarrow> push_data option \<Rightarrow> effect list \<times> settled \<times> 'h" where
  "push_handler_v3 host h event_data =
     (let sync = [SendLog ''info'' (emoji_bell @ '' Push notification received'') JNull,
                  SendLog ''info'' (emoji_lock @ '' Permission: '' @ permission host) JNull];
          (logs, data) = decode_v3 event_data
      in case derive_v3 data of
           Inl e \<Rightarrow> (sync @ logs, Rejected e, h)
         | Inr (title, options) \<Rightarrow>
             (case get_prop options ''body'' of
                Inl e \<Rightarrow> (sync @ logs, Rejected e, h)
              | Inr body \<Rightarrow>
                  (let (shown, h') = render_v3 host h title options
                   in (sync @ logs @
                       [SendLog ''info'' (emoji_phone @ '' Attempting to show notification'')
                          (JObj [(''title'', title), (''body'', body)])] @ shown,
                       Fulfilled, h'))))"

section \<open>src/unnamed/part_000: the push handler\<close>

text \<open>Lines 130 to 149: the payload decode, with the log calls it makes.\<close>

definition decode_v4 :: "push_data option \<Rightarrow> effect list \<times> jsval" where
  "decode_v4 event_data =
     (case event_data of
        Some d \<Rightarrow>
          (case json_result d of
             Inr v \<Rightarrow>
               ([SendLog ''success'' (emoji_package @ '' Successfully parsed push data'') v], v)
           | Inl e \<Rightarrow>
               (case text_result d of
                  Inr t \<Rightarrow>
                    ([SendLog ''error'' (emoji_cross @ '' Failed to parse JSON'')
                        (JStr (err_message e)),
                      SendLog ''warning'' (emoji_warning @ '' Using text fallback'') JNull],
                     JObj [(''body'', JStr t)])
                | Inl textError \<Rightarrow>
                    ([SendLog ''error'' (emoji_cross @ '' Failed to parse JSON'')
                        (JStr (err_message e)),
                      SendLog ''error'' (emoji_cross @ '' Failed to parse text'')
                        (JStr (err_message textError))],
                     JObj [])))
      | None \<Rightarrow>
          ([SendLog ''warning'' (emoji_warning @ '' No data in push event'') JNull], JObj []))"

text \<open>Lines 152 to 160: the title and the options bundle.\<close>

definition derive_v4 :: "jsval \<Rightarrow> js_error + jsval \<times> jsval" where
  "derive_v4 data =
     (case get_prop data ''title'' of
        Inl e \<Rightarrow> Inl e
      | Inr t \<Rightarrow>
     (case get_prop data ''body'' of
        Inl e \<Rightarrow> Inl e
      | Inr b \<Rightarrow>
     (case get_prop data ''data'' of
        Inl e \<Rightarrow> Inl e
      | Inr d \<Rightarrow>
          Inr (js_or t (JStr ''Medication Reminder''),
               JObj [(''body'', js_or b (JStr ''It's time for a medication dose'')),
                     (''icon'', JStr ''/navikinder-logo-256.png''),
                     (''badge'', JStr ''/navikinder-logo-256.png''),
                     (''data'', js_or d (JObj [])),
                     (''requireInteraction'', JBool True)]))))"

text \<open>Lines 164 to 177: the debug notification shown before the actual one.\<close>

definition debug_title_v4 :: jsval where
  "debug_title_v4 = JStr (emoji_test_tube @ '' DEBUG: Push Event Received'')"

definition debug_options_v4 :: jsval where
  "debug_options_v4 =
     JObj [(''body'', JStr ''This confirms push events reach the service worker and showNotification works''),
           (''icon'', JStr ''https://via.placeholder.com/192x192.png'')]"

definition debug_v4 :: "'h notif_host \<Rightarrow> 'h \<Rightarrow> effect list \<times> 'h" where
  "debug_v4 host h =
     (case showNotification host h debug_title_v4 debug_options_v4 of
        (None, h0) \<Rightarrow>
          ([ShowNotification debug_title_v4 debug_options_v4,
            SendLog ''success''
              (emoji_check @ '' DEBUG notification shown - push events work!'') JNull],
           h0)
      | (Some debugError, h0) \<Rightarrow>
          ([ShowNotification debug_title_v4 debug_options_v4,
            SendLog ''error'' (emoji_cross @ '' DEBUG notification failed'')
              (JObj [(''name'', JStr (err_name debugError)),
                     (''message'', JStr (err_message debugError)),
                     (''permission'', JStr (permission host))])],
           h0))"

text \<open>Lines 179 to 200: the render attempt and its fallback.\<close>

definition render_v4 :: "'h notif_host \<Rightarrow> 'h \<Rightarrow> jsval \<Rightarrow> jsval \<Rightarrow> effect list \<times> 'h" where
  "render_v4 host h title options =
     (case showNotification host h title options of
        (None, h1) \<Rightarrow>
          ([ShowNotification title options,
            SendLog ''success'' (emoji_check @ '' Main notification shown successfully!'')
              JNull],
           h1)
      | (Some error, h1) \<Rightarrow>
          (case showNotification host h1 (JStr ''Medication Reminder'')
                  (JObj [(''body'', JStr ''It's time for a medication dose''),
                         (''icon'', JStr ''https://via.placeholder.com/192x192.png'')]) of
             (None, h2) \<Rightarrow>
               ([ShowNotification title options,
                 SendLog ''error'' (emoji_cross @ '' Main showNotification failed'')
                   (JObj [(''name'', JStr (err_name error)),
                          (''message'', JStr (err_message error)),
                          (''permission'', JStr (permission host))]),
                 ShowNotification (JStr ''Medication Reminder'')
                   (JObj [(''body'', JStr ''It's time for a medication dose''),
                          (''icon'', JStr ''https://via.placeholder.com/192x192.png'')]),
                 SendLog ''success'' (emoji_check @ '' Fallback notification shown'') JNull],
                h2)
           | (Some fallbackError, h2) \<Rightarrow>
               ([ShowNotification title options,
                 SendLog ''error'' (emoji_cross @ '' Main showNotification failed'')
                   (JObj [(''name'', JStr (err_name error)),
                          (''message'', JStr (err_message error)),
                          (''permission'', JStr (permission host))]),
                 ShowNotification (JStr ''Medication Reminder'')
                   (JObj [(''body'', JStr ''It's time for a medication dose''),
                          (''icon'', JStr ''https://via.placeholder.com/192x192.png'')]),
                 SendLog ''error'' (emoji_cross @ '' Even fallback notification failed'')
                   (JStr (err_message fallbackError))],
                h2)))"

text \<open>
  Lines 117 to 203: the console output and the three log calls made at once, then the
  task handed to \<^verbatim>\<open>event.waitUntil\<close>.
\<close>

definition push_handler_v4 ::
  "'h notif_host \<Rightarrow> 'h \<Rightarrow> push_data option \<Rightarrow> effect list \<times> settled \<times> 'h" where
  "push_handler_v4 host h event_data =
     (let sync = [ConsoleLog [JStr (emoji_siren @ '' PUSH EVENT FIRED - THIS SHOULD APPEAR IN LOGS'')],
                  ConsoleLog [JStr (emoji_siren @ '' Event data exists:''),
                              JBool (case event_data of Some d \<Rightarrow> True | None \<Rightarrow> False)],
                  ConsoleLog [JStr (emoji_siren @ '' Notification permission:''),
                              JStr (permission host)],
                  SendLog ''success''
                    (emoji_siren @ '' CRITICAL: Push event fired on service worker!'') JNull,
                  SendLog ''info'' (emoji_bell @ '' Push notification received'') JNull,
                  SendLog ''info'' (emoji_lock @ '' Permission: '' @ permission host) JNull];
          (logs, data) = decode_v4 event_data
      in case derive_v4 data of
           Inl e \<Rightarrow> (sync @ logs, Rejected e, h)
         | Inr (title, options) \<Rightarrow>
             (case get_prop options ''body'' of
                Inl e \<Rightarrow> (sync @ logs, Rejected e, h)
              | Inr body \<Rightarrow>
                  (let (dbg, h0) = debug_v4 host h;
                       (shown, h') = render_v4 host h0 title options
                   in (sync @ logs @
                       [SendLog ''info'' (emoji_phone @ '' Attempting to show notification'')
                          (JObj [(''title'', title), (''body'', body)])] @ dbg @ shown,
                       Fulfilled, h'))))"

section \<open>Clients\<close>

text \<open>
  The host: the worker's own origin (\<^verbatim>\<open>self.location.origin\<close>), the clients that are
  open, of whatever origin, and what \<^verbatim>\<open>clients.matchAll(options)\<close> resolves to: the
  clients of the worker's origin and of the asked type (\<^verbatim>\<open>window\<close> when the option is
  left out, \<open>None\<close> for \<^verbatim>\<open>all\<close>), and only the controlled ones unless
  \<^verbatim>\<open>includeUncontrolled\<close> is set. The call may reject, \<^verbatim>\<open>postMessage\<close> may throw,
  \<^verbatim>\<open>focus\<close> and \<^verbatim>\<open>openWindow\<close> may reject. \<open>clock host n\<close> is the \<open>n\<close>-th reading
  of \<^verbatim>\<open>new Date().toISOString()\<close> in a call.
\<close>

record clients_host =
  worker_origin :: string
  clients :: "client list"
  matchAll_error :: "js_error option"
  postMessage_error :: "nat \<Rightarrow> jsval \<Rightarrow> js_error option"
  clock :: "nat \<Rightarrow> string"
  focus_error :: "nat \<Rightarrow> js_error option"
  openWindow_error :: "string \<Rightarrow> js_error option"

definition type_matches :: "client_type option \<Rightarrow> client \<Rightarrow> bool" where
  "type_matches ty c = (case ty of None \<Rightarrow> True | Some t \<Rightarrow> client_kind c = t)"

definition matchAll ::
  "clients_host \<Rightarrow> bool \<Rightarrow> client_type option \<Rightarrow> js_error + client list" where
  "matchAll host includeUncontrolled ty =
     (case matchAll_error host of
        Some e \<Rightarrow> Inl e
      | None \<Rightarrow>
          Inr (filter
                 (\<lambda>c. client_origin c = worker_origin host \<and>
                      (includeUncontrolled \<or> controlled c) \<and> type_matches ty c)
                 (clients host)))"

text \<open>A number in a template literal.\<close>

fun string_of_nat :: "nat \<Rightarrow> string" where
  "string_of_nat n =
     (if n < 10 then [char_of (48 + n)]
      else string_of_nat (n div 10) @ [char_of (48 + n mod 10)])"

section \<open>src/public/sw.js: sendLogToApp\<close>

text \<open>
  Lines 98 to 114. The function returns at once; the \<^verbatim>\<open>then\<close> callback runs later and
  nothing handles its promise. The result is the trace and the reason of the unhandled
  rejection, if any: \<^verbatim>\<open>forEach\<close> stops at the first \<^verbatim>\<open>postMessage\<close> that throws.
\<close>

fun forEach_post_v3 ::
  "clients_host \<Rightarrow> string \<Rightarrow> string \<Rightarrow> jsval \<Rightarrow> nat \<Rightarrow> client list \<Rightarrow> effect list \<times> js_error option"
where
  "forEach_post_v3 host logType message data i [] = ([], None)"
| "forEach_post_v3 host logType message data i (c # cs) =
     (case postMessage_error host (client_id c)
             (JObj [(''type'', JStr ''SW_LOG''), (''logType'', JStr logType),
                    (''message'', JStr message), (''data'', data),
                    (''timestamp'', JStr (clock host i))]) of
        Some e \<Rightarrow> ([], Some e)
      | None \<Rightarrow>
          (let (posts, r) = forEach_post_v3 host logType message data (Suc i) cs
           in (PostMessage (client_id c)
                 (JObj [(''type'', JStr ''SW_LOG''), (''logType'', JStr logType),
                        (''message'', JStr message), (''data'', data),
                        (''timestamp'', JStr (clock host i))]) # posts, r)))"

definition sendLogToApp_v3 ::
  "clients_host \<Rightarrow> string \<Rightarrow> string \<Rightarrow> jsval \<Rightarrow> effect list \<times> js_error option" where
  "sendLogToApp_v3 host logType message data =
     (case matchAll host False (Some WindowClient) of
        Inl e \<Rightarrow> ([ConsoleLog [JStr (''[SW] '' @ message), js_or data (JStr [])]], Some e)
      | Inr cs \<Rightarrow>
          (let (posts, r) = forEach_post_v3 host logType message data 0 cs
           in (ConsoleLog [JStr (''[SW] '' @ message), js_or data (JStr [])] # posts, r)))"

section \<open>src/unnamed/part_000: sendLogToApp\<close>

text \<open>
  Lines 7 to 34. An async function: the result is the trace and the state its promise
  settles in.
\<close>

fun forEach_post_v4 :: "clients_host \<Rightarrow> jsval \<Rightarrow> nat \<Rightarrow> client list \<Rightarrow> effect list" where
  "forEach_post_v4 host logMessage index [] = []"
| "forEach_post_v4 host logMessage index (c # cs) =
     ConsoleLog [JStr (''[SW] Sending log to client '' @ string_of_nat (index + 1) @ '':''),
                 logMessage] #
     (case postMessage_error host (client_id c) logMessage of
        None \<Rightarrow> [PostMessage (client_id c) logMessage]
      | Some clientError \<Rightarrow>
          [ConsoleError
             [JStr (''[SW] Failed to send to client '' @ string_of_nat (index + 1) @ '':''),
              err_val clientError]]) @
     forEach_post_v4 host logMessage (index + 1) cs"

definition sendLogToApp_v4 ::
  "clients_host \<Rightarrow> string \<Rightarrow> string \<Rightarrow> jsval \<Rightarrow> effect list \<times> settled" where
  "sendLogToApp_v4 host logType message data =
     (case matchAll host True (Some WindowClient) of
        Inl error \<Rightarrow>
          ([ConsoleError [JStr ''[SW] Failed to send log to app:'', err_val error]], Fulfilled)
      | Inr cs \<Rightarrow>
          (ConsoleLog
             [JStr (''[SW] Found '' @ string_of_nat (length cs) @ '' clients to send log to'')] #
           forEach_post_v4 host
             (JObj [(''type'', JStr ''SW_LOG''), (''logType'', JStr logType),
                    (''message'', JStr message), (''data'', data),
                    (''timestamp'', JStr (clock host 0))]) 0 cs @
           [ConsoleLog [JStr (''[SW] '' @ message), js_or data (JStr [])]],
           Fulfilled))"

section \<open>Cache storage\<close>

text \<open>
  The host's cache storage: the buckets by name, in the order they were created, each a
  list of the responses it holds by request URL. \<^verbatim>\<open>caches.open\<close> creates a missing
  bucket, \<^verbatim>\<open>cache.addAll\<close> stores every response or none, \<^verbatim>\<open>caches.keys\<close> lists the
  names and \<^verbatim>\<open>caches.delete\<close> removes a bucket and tells whether it was there. Each may
  fail, as the host decides.
\<close>

datatype response = Response (status: nat) (body: string)

type_synonym cache = "(string \<times> response) list"

type_synonym storage = "(string \<times> cache) list"

record cache_host =
  open_error :: "string \<Rightarrow> js_error option"
  addAll_result :: "string list \<Rightarrow> js_error + (string \<times> response) list"
  keys_error :: "js_error option"
  delete_error :: "string \<Rightarrow> js_error option"

definition caches_open :: "cache_host \<Rightarrow> storage \<Rightarrow> string \<Rightarrow> js_error + storage" where
  "caches_open host st name =
     (case open_error host name of
        Some e \<Rightarrow> Inl e
      | None \<Rightarrow> Inr (if name \<in> set (map fst st) then st else st @ [(name, [])]))"

definition cache_put_all :: "(string \<times> response) list \<Rightarrow> cache \<Rightarrow> cache" where
  "cache_put_all entries c = filter (\<lambda>kv. fst kv \<notin> set (map fst entries)) c @ entries"

definition cache_addAll ::
  "cache_host \<Rightarrow> storage \<Rightarrow> string \<Rightarrow> string list \<Rightarrow> js_error + storage" where
  "cache_addAll host st name urls =
     (case addAll_result host urls of
        Inl e \<Rightarrow> Inl e
      | Inr entries \<Rightarrow>
          Inr (map (\<lambda>(n, c). if n = name then (n, cache_put_all entries c) else (n, c)) st))"

definition caches_keys :: "cache_host \<Rightarrow> storage \<Rightarrow> js_error + string list" where
  "caches_keys host st = (case keys_error host of Some e \<Rightarrow> Inl e | None \<Rightarrow> Inr (map fst st))"

definition caches_delete ::
  "cache_host \<Rightarrow> storage \<Rightarrow> string \<Rightarrow> js_error + bool \<times> storage" where
  "caches_delete host st name =
     (case delete_error host name of
        Some e \<Rightarrow> Inl e
      | None \<Rightarrow> Inr (name \<in> set (map fst st), filter (\<lambda>kv. fst kv \<noteq> name) st))"

section \<open>The handlers the two files share\<close>

text \<open>
  The install, activate, fetch and notificationclick handlers read the same in
  src/public/sw.js and in src/unnamed/part_000, but for the constant \<^verbatim>\<open>CACHE_NAME\<close>
  (line 2 of each), which the model takes as the argument \<open>cache_name\<close>.
\<close>

definition CACHE_NAME_v3 :: string where
  "CACHE_NAME_v3 = ''medication-tracker-v3''"

definition CACHE_NAME_v4 :: string where
  "CACHE_NAME_v4 = ''medication-tracker-v4''"

definition urlsToCache :: "string list" where
  "urlsToCache = [''/'', ''/manifest.json'', ''/navikinder-logo-256.png'']"

text \<open>
  The install handler (sw.js lines 32 to 41, part_000 lines 48 to 57): the trace, the
  state of the promise handed to \<^verbatim>\<open>event.waitUntil\<close>, and the storage.
\<close>

definition install_handler ::
  "string \<Rightarrow> cache_host \<Rightarrow> storage \<Rightarrow> effect list \<times> settled \<times> storage" where
  "install_handler cache_name host st =
     (case caches_open host st cache_name of
        Inl error \<Rightarrow>
          ([SkipWaiting, ConsoleError [JStr ''Cache installation failed:'', err_val error]],
           Fulfilled, st)
      | Inr st1 \<Rightarrow>
          (case cache_addAll host st1 cache_name urlsToCache of
             Inl error \<Rightarrow>
               ([SkipWaiting, ConsoleError [JStr ''Cache installation failed:'', err_val error]],
                Fulfilled, st1)
           | Inr st2 \<Rightarrow> ([SkipWaiting], Fulfilled, st2)))"

text \<open>
  The activate handler (sw.js lines 44 to 63, part_000 lines 60 to 79). The \<^verbatim>\<open>map\<close>
  callback asks for the deletion of every name but \<open>cache_name\<close>; \<open>delete_stale\<close>
  returns the reasons of the deletions that rejected, in the order of the names, and the
  storage. \<^verbatim>\<open>Promise.all\<close> rejects when one of them does (the model takes the first in
  that order as its reason), and then the \<^verbatim>\<open>then\<close> callback does not run.
\<close>

fun delete_stale ::
  "string \<Rightarrow> cache_host \<Rightarrow> string list \<Rightarrow> storage \<Rightarrow> js_error list \<times> storage" where
  "delete_stale cache_name host [] st = ([], st)"
| "delete_stale cache_name host (cacheName # rest) st =
     (if cacheName \<noteq> cache_name then
        (case caches_delete host st cacheName of
           Inl e \<Rightarrow>
             (let (es, st') = delete_stale cache_name host rest st in (e # es, st'))
         | Inr (found, st1) \<Rightarrow> delete_stale cache_name host rest st1)
      else delete_stale cache_name host rest st)"

definition activate_handler ::
  "string \<Rightarrow> cache_host \<Rightarrow> storage \<Rightarrow> effect list \<times> settled \<times> storage" where
  "activate_handler cache_name host st =
     (case caches_keys host st of
        Inl e \<Rightarrow>
          ([ConsoleLog [JStr (emoji_arrows @ '' Service Worker activated'')], ClientsClaim],
           Rejected e, st)
      | Inr cacheNames \<Rightarrow>
          (case delete_stale cache_name host cacheNames st of
             ([], st') \<Rightarrow>
               ([ConsoleLog [JStr (emoji_arrows @ '' Service Worker activated'')], ClientsClaim,
                 ConsoleLog [JStr (emoji_broom @ '' Cache cleanup complete'')],
                 SetTimeout ''sendInitialLog'' 1000],
                Fulfilled, st')
           | (e # es, st') \<Rightarrow>
               ([ConsoleLog [JStr (emoji_arrows @ '' Service Worker activated'')], ClientsClaim],
                Rejected e, st')))"

text \<open>
  The fetch handler (sw.js lines 77 to 95, part_000 lines 94 to 112). The host answers
  \<^verbatim>\<open>caches.match(request)\<close> with a response, with \<^verbatim>\<open>undefined\<close> (\<open>None\<close>) or by
  rejecting, and each \<^verbatim>\<open>fetch(request)\<close> with a response or by rejecting; the network
  may answer a later fetch differently, so its state \<open>'n\<close> is passed along. The result
  is the trace, what \<^verbatim>\<open>event.respondWith\<close> receives, and the network's state. The outer
  \<^verbatim>\<open>catch\<close> is chained after the \<^verbatim>\<open>then\<close>, so it also receives the error the inner
  \<^verbatim>\<open>catch\<close> throws again.
\<close>

record 'n fetch_host =
  caches_match :: "request \<Rightarrow> js_error + response option"
  net_fetch :: "'n \<Rightarrow> request \<Rightarrow> (js_error + response) \<times> 'n"

definition fetch_handler ::
  "'n fetch_host \<Rightarrow> 'n \<Rightarrow> request \<Rightarrow> effect list \<times> (js_error + response) \<times> 'n" where
  "fetch_handler host n req =
     (case caches_match host req of
        Inr (Some response) \<Rightarrow> ([], Inr response, n)
      | Inr None \<Rightarrow>
          (case net_fetch host n req of
             (Inr response, n1) \<Rightarrow> ([NetFetch req], Inr response, n1)
           | (Inl error, n1) \<Rightarrow>
               (case net_fetch host n1 req of
                  (result, n2) \<Rightarrow>
                    ([NetFetch req,
                      ConsoleError [JStr ''Network fetch failed:'', err_val error],
                      ConsoleError [JStr ''Cache lookup failed:'', err_val error],
                      NetFetch req],
                     result, n2)))
      | Inl error \<Rightarrow>
          (case net_fetch host n req of
             (result, n1) \<Rightarrow>
               ([ConsoleError [JStr ''Cache lookup failed:'', err_val error], NetFetch req],
                result, n1)))"

text \<open>The requests a trace sends to the network, in order.\<close>

fun fetches :: "effect list \<Rightarrow> request list" where
  "fetches [] = []"
| "fetches (NetFetch r # es) = r # fetches es"
| "fetches (e # es) = fetches es"

text \<open>
  The notificationclick handler (sw.js lines 184 to 202, part_000 lines 206 to 224).
  \<open>includes_js s sub\<close> is \<^verbatim>\<open>s.includes(sub)\<close>; \<open>find_client\<close> is the \<^verbatim>\<open>for\<close> loop, which
  returns at the first client whose URL includes \<^verbatim>\<open>self.location.origin\<close>.
\<close>

fun starts_with :: "string \<Rightarrow> string \<Rightarrow> bool" where
  "starts_with s [] = True"
| "starts_with [] (c # sub) = False"
| "starts_with (d # s) (c # sub) = (d = c \<and> starts_with s sub)"

fun includes_js :: "string \<Rightarrow> string \<Rightarrow> bool" where
  "includes_js [] sub = starts_with [] sub"
| "includes_js (d # s) sub = (starts_with (d # s) sub \<or> includes_js s sub)"

fun find_client :: "string \<Rightarrow> client list \<Rightarrow> client option" where
  "find_client origin [] = None"
| "find_client origin (c # cs) =
     (if includes_js (client_url c) origin then Some c else find_client origin cs)"

definition notificationclick_handler :: "clients_host \<Rightarrow> effect list \<times> settled" where
  "notificationclick_handler host =
     (case matchAll host True (Some WindowClient) of
        Inl error \<Rightarrow>
          ([CloseNotification,
            ConsoleError [JStr ''Failed to handle notification click:'', err_val error]],
           Fulfilled)
      | Inr clientList \<Rightarrow>
          (case find_client (worker_origin host) clientList of
             Some c \<Rightarrow>
               (case focus_error host (client_id c) of
                  None \<Rightarrow> ([CloseNotification, FocusClient c], Fulfilled)
                | Some error \<Rightarrow>
                    ([CloseNotification, FocusClient c,
                      ConsoleError [JStr ''Failed to handle notification click:'', err_val error]],
                     Fulfilled))
           | None \<Rightarrow>
               (case openWindow_error host ''/overview'' of
                  None \<Rightarrow> ([CloseNotification, OpenWindow ''/overview''], Fulfilled)
                | Some error \<Rightarrow>
                    ([CloseNotification, OpenWindow ''/overview'',
                      ConsoleError [JStr ''Failed to handle notification click:'', err_val error]],
                     Fulfilled))))"

section \<open>Example hosts and events\<close>

text \<open>A host that shows every notification, and one that rejects every one.\<close>

definition host_granted :: "unit notif_host" where
  "host_granted =
     \<lparr>permission = ''granted'', showNotification = (\<lambda>h title options. (None, h))\<rparr>"

definition host_denied :: "unit notif_host" where
  "host_denied =
     \<lparr>permission = ''denied'',
      showNotification =
        (\<lambda>h title options.
           (Some (JsError ''TypeError'' ''No notification permission has been granted''), h))\<rparr>"

text \<open>Push payloads: a structured one, one whose title is the empty string, plain text.\<close>

definition dose_event :: push_data where
  \<open>dose_event =
     PushData
       (Inr (JObj [(''title'', JStr ''Morning dose''), (''body'', JStr ''Take your pill''),
                   (''data'', JObj [(''id'', JStr ''7'')])]))
       (Inr ''{"title":"Morning dose","body":"Take your pill","data":{"id":"7"}}'')\<close>

definition empty_title_event :: push_data where
  \<open>empty_title_event =
     PushData (Inr (JObj [(''title'', JStr []), (''body'', JStr ''Take your pill'')]))
       (Inr ''{"title":"","body":"Take your pill"}'')\<close>

definition text_event :: "string \<Rightarrow> push_data" where
  "text_event t =
     PushData (Inl (JsError ''SyntaxError'' ''Unexpected token in JSON at position 0''))
       (Inr t)"

text \<open>
  Cache hosts: one on which nothing fails, and one whose \<^verbatim>\<open>addAll\<close> rejects (the network
  is down at install). A storage left by two earlier versions and an unrelated bucket.
\<close>

definition cache_host_ok :: cache_host where
  "cache_host_ok =
     \<lparr>open_error = (\<lambda>name. None),
      addAll_result = (\<lambda>urls. Inr (map (\<lambda>u. (u, Response 200 u)) urls)),
      keys_error = None,
      delete_error = (\<lambda>name. None)\<rparr>"

definition cache_host_offline :: cache_host where
  "cache_host_offline =
     \<lparr>open_error = (\<lambda>name. None),
      addAll_result = (\<lambda>urls. Inl (JsError ''TypeError'' ''Failed to fetch'')),
      keys_error = None,
      delete_error = (\<lambda>name. None)\<rparr>"

definition old_storage :: storage where
  "old_storage =
     [(''medication-tracker-v2'', [(''/'', Response 200 ''shell v2'')]),
      (''medication-tracker-v3'', [(''/'', Response 200 ''shell v3'')]),
      (''medication-tracker-v4'', [(''/'', Response 200 ''shell v4'')]),
      (''images'', [])]"

text \<open>
  A fetch host whose cache holds nothing and whose network rejects the first fetch and
  answers every later one.
\<close>

definition flaky_host :: "nat fetch_host" where
  "flaky_host =
     \<lparr>caches_match = (\<lambda>req. Inr None),
      net_fetch =
        (\<lambda>n req.
           (if n = 0 then Inl (JsError ''TypeError'' ''Failed to fetch'')
            else Inr (Response 200 ''fresh''), Suc n))\<rparr>"

text \<open>
  Client hosts, of a worker at \<^verbatim>\<open>https://app.test\<close>: two windows of the application,
  the second not controlled by the worker; a window at \<^verbatim>\<open>about:blank\<close> that the
  application opened, alone and before a window of the application; and a window of
  another origin whose URL carries the worker's origin in its query.
\<close>

definition two_windows :: clients_host where
  "two_windows =
     \<lparr>worker_origin = ''https://app.test'',
      clients =
        [\<lparr>client_id = 1, client_url = ''https://app.test/overview'',
          client_origin = ''https://app.test'',
          client_kind = WindowClient, controlled = True\<rparr>,
         \<lparr>client_id = 2, client_url = ''https://app.test/settings'',
          client_origin = ''https://app.test'',
          client_kind = WindowClient, controlled = False\<rparr>],
      matchAll_error = None,
      postMessage_error = (\<lambda>cid msg. None),
      clock = (\<lambda>n. ''2026-01-01T08:00:00.000Z''),
      focus_error = (\<lambda>cid. None),
      openWindow_error = (\<lambda>url. None)\<rparr>"

definition blank_window :: client where
  "blank_window =
     \<lparr>client_id = 3, client_url = ''about:blank'', client_origin = ''https://app.test'',
      client_kind = WindowClient, controlled = False\<rparr>"

definition app_window :: client where
  "app_window =
     \<lparr>client_id = 4, client_url = ''https://app.test/overview'',
      client_origin = ''https://app.test'',
      client_kind = WindowClient, controlled = True\<rparr>"

definition evil_window :: client where
  "evil_window =
     \<lparr>client_id = 7, client_url = ''https://evil.test/?next=https://app.test/overview'',
      client_origin = ''https://evil.test'',
      client_kind = WindowClient, controlled = False\<rparr>"

definition blank_then_app :: clients_host where
  "blank_then_app =
     \<lparr>worker_origin = ''https://app.test'',
      clients = [evil_window, blank_window, app_window],
      matchAll_error = None,
      postMessage_error = (\<lambda>cid msg. None),
      clock = (\<lambda>n. ''2026-01-01T08:00:00.000Z''),
      focus_error = (\<lambda>cid. None),
      openWindow_error = (\<lambda>url. None)\<rparr>"

definition blank_only :: clients_host where
  "blank_only =
     \<lparr>worker_origin = ''https://app.test'',
      clients = [blank_window],
      matchAll_error = None,
      postMessage_error = (\<lambda>cid msg. None),
      clock = (\<lambda>n. ''2026-01-01T08:00:00.000Z''),
      focus_error = (\<lambda>cid. None),
      openWindow_error = (\<lambda>url. None)\<rparr>"

definition foreign_window :: clients_host where
  "foreign_window =
     \<lparr>worker_origin = ''https://app.test'',
      clients = [evil_window],
      matchAll_error = None,
      postMessage_error = (\<lambda>cid msg. None),
      clock = (\<lambda>n. ''2026-01-01T08:00:00.000Z''),
      focus_error = (\<lambda>cid. None),
      openWindow_error = (\<lambda>url. None)\<rparr>"

text \<open>The clients a trace delivered a message to, in order.\<close>

fun posted_to :: "effect list \<Rightarrow> nat list" where
  "posted_to [] = []"
| "posted_to (PostMessage cid msg # es) = cid # posted_to es"
| "posted_to (e # es) = posted_to es"

section \<open>Properties\<close>

lemma renders_append: "renders (xs @ ys) = renders xs @ renders ys"
  by (induction xs rule: renders.induct) simp_all

subsection \<open>The push handlers: the shape of the trace\<close>

lemma renders_skip [simp]:
  "renders (SendLog l m d # es) = renders es"
  "renders (ConsoleLog xs # es) = renders es"
  by simp_all

lemma renders_decode_v3: "renders (fst (decode_v3 ev)) = []"
  by (simp add: decode_v3_def split: option.splits sum.splits)

lemma renders_decode_v4: "renders (fst (decode_v4 ev)) = []"
  by (simp add: decode_v4_def split: option.splits sum.splits)

lemma derive_v3_body:
  "derive_v3 data = Inr (title, options) \<Longrightarrow> \<exists>b. get_prop options ''body'' = Inr b"
  by (auto simp: derive_v3_def split: sum.splits)

lemma derive_v4_body:
  "derive_v4 data = Inr (title, options) \<Longrightarrow> \<exists>b. get_prop options ''body'' = Inr b"
  by (auto simp: derive_v4_def split: sum.splits)

lemma renders_debug_v4: "renders (fst (debug_v4 host h)) = [(debug_title_v4, debug_options_v4)]"
  by (simp add: debug_v4_def split: prod.splits option.splits)

lemma renders_push_v3:
  assumes "derive_v3 (snd (decode_v3 ev)) = Inr (title, options)"
  shows "renders (fst (push_handler_v3 host h ev)) =
         renders (fst (render_v3 host h title options))"
proof -
  obtain b where "get_prop options ''body'' = Inr b"
    using derive_v3_body [OF assms] by blast
  then show ?thesis
    using assms
    using renders_decode_v3 [of ev]
    by (cases "decode_v3 ev"; cases "render_v3 host h title options")
      (simp add: push_handler_v3_def Let_def renders_append)
qed

lemma renders_push_v4:
  assumes "derive_v4 (snd (decode_v4 ev)) = Inr (title, options)"
  shows "renders (fst (push_handler_v4 host h ev)) =
         (debug_title_v4, debug_options_v4) #
         renders (fst (render_v4 host (snd (debug_v4 host h)) title options))"
proof -
  obtain b where "get_prop options ''body'' = Inr b"
    using derive_v4_body [OF assms] by blast
  then show ?thesis
    using assms renders_debug_v4 [of host h] renders_decode_v4 [of ev]
    by (cases "decode_v4 ev"; cases "debug_v4 host h";
        cases "render_v4 host (snd (debug_v4 host h)) title options")
      (simp add: push_handler_v4_def Let_def renders_append)
qed

lemma render_v3_primary:
  "take 1 (renders (fst (render_v3 host h title options))) = [(title, options)]"
  by (simp add: render_v3_def split: prod.splits option.splits)

lemma render_v4_primary:
  "take 1 (renders (fst (render_v4 host h title options))) = [(title, options)]"
  by (simp add: render_v4_def split: prod.splits option.splits)


lemma decode_in_push_v3:
  "x \<in> set (fst (decode_v3 ev)) \<Longrightarrow> x \<in> set (fst (push_handler_v3 host h ev))"
  by (cases "decode_v3 ev")
    (auto simp: push_handler_v3_def Let_def split: sum.splits prod.splits)

lemma decode_in_push_v4:
  "x \<in> set (fst (decode_v4 ev)) \<Longrightarrow> x \<in> set (fst (push_handler_v4 host h ev))"
  by (cases "decode_v4 ev")
    (auto simp: push_handler_v4_def Let_def split: sum.splits prod.splits)

lemma render_in_push_v3:
  assumes "derive_v3 (snd (decode_v3 ev)) = Inr (title, options)"
    and "x \<in> set (fst (render_v3 host h title options))"
  shows "x \<in> set (fst (push_handler_v3 host h ev))"
proof -
  obtain b where "get_prop options ''body'' = Inr b"
    using derive_v3_body [OF assms(1)] by blast
  then show ?thesis
    using assms
    by (cases "decode_v3 ev"; cases "render_v3 host h title options")
      (simp add: push_handler_v3_def Let_def)
qed

lemma render_in_push_v4:
  assumes "derive_v4 (snd (decode_v4 ev)) = Inr (title, options)"
    and "x \<in> set (fst (render_v4 host (snd (debug_v4 host h)) title options))"
  shows "x \<in> set (fst (push_handler_v4 host h ev))"
proof -
  obtain b where "get_prop options ''body'' = Inr b"
    using derive_v4_body [OF assms(1)] by blast
  then show ?thesis
    using assms
    by (cases "decode_v4 ev"; cases "debug_v4 host h";
        cases "render_v4 host (snd (debug_v4 host h)) title options")
      (simp add: push_handler_v4_def Let_def)
qed

lemma push_v3_settles:
  "derive_v3 (snd (decode_v3 ev)) = Inr (title, options) \<Longrightarrow>
   fst (snd (push_handler_v3 host h ev)) = Fulfilled"
  by (cases "decode_v3 ev"; cases "render_v3 host h title options")
    (auto simp: push_handler_v3_def Let_def dest: derive_v3_body split: sum.splits)

lemma push_v4_settles:
  "derive_v4 (snd (decode_v4 ev)) = Inr (title, options) \<Longrightarrow>
   fst (snd (push_handler_v4 host h ev)) = Fulfilled"
  by (cases "decode_v4 ev"; cases "debug_v4 host h";
      cases "render_v4 host (snd (debug_v4 host h)) title options")
    (auto simp: push_handler_v4_def Let_def dest: derive_v4_body split: sum.splits)

lemma take_2_Cons: "take 2 (x # xs) = x # take 1 xs"
  by (simp add: numeral_2_eq_2)

subsection \<open>The push handlers: payloads\<close>

text \<open>
  C6. A push event without payload: the notification the handler asks for has the title
  "Medication Reminder" and the body "It's time for a medication dose", and the
  warning-level log call that says there is no data has been made. In part_000 the test
  notification of lines 164 to 177 is asked for before this, the actual one.
\<close>

theorem push_no_payload_defaults:
  "take 1 (renders (fst (push_handler_v3 host h None))) =
     [(JStr ''Medication Reminder'',
       JObj [(''body'', JStr ''It's time for a medication dose''),
             (''icon'', JStr ''/navikinder-logo-256.png''),
             (''badge'', JStr ''/navikinder-logo-256.png''),
             (''data'', JObj []),
             (''requireInteraction'', JBool True)])] \<and>
   SendLog ''warning'' (emoji_warning @ '' No data in push event'') JNull
     \<in> set (fst (push_handler_v3 host h None)) \<and>
   take 2 (renders (fst (push_handler_v4 host' h' None))) =
     [(debug_title_v4, debug_options_v4),
      (JStr ''Medication Reminder'',
       JObj [(''body'', JStr ''It's time for a medication dose''),
             (''icon'', JStr ''/navikinder-logo-256.png''),
             (''badge'', JStr ''/navikinder-logo-256.png''),
             (''data'', JObj []),
             (''requireInteraction'', JBool True)])] \<and>
   SendLog ''warning'' (emoji_warning @ '' No data in push event'') JNull
     \<in> set (fst (push_handler_v4 host' h' None))"
proof -
  let ?opts = "JObj [(''body'', JStr ''It's time for a medication dose''),
             (''icon'', JStr ''/navikinder-logo-256.png''),
             (''badge'', JStr ''/navikinder-logo-256.png''),
             (''data'', JObj []),
             (''requireInteraction'', JBool True)]"
  have d3: "derive_v3 (snd (decode_v3 None)) = Inr (JStr ''Medication Reminder'', ?opts)"
    by (simp add: decode_v3_def derive_v3_def js_or_def)
  have d4: "derive_v4 (snd (decode_v4 None)) = Inr (JStr ''Medication Reminder'', ?opts)"
    by (simp add: decode_v4_def derive_v4_def js_or_def)
  have r3: "take 1 (renders (fst (push_handler_v3 host h None))) =
      [(JStr ''Medication Reminder'', ?opts)]"
    by (simp only: renders_push_v3 [OF d3] render_v3_primary)
  have r4: "take 2 (renders (fst (push_handler_v4 host' h' None))) =
      [(debug_title_v4, debug_options_v4), (JStr ''Medication Reminder'', ?opts)]"
    by (simp only: renders_push_v4 [OF d4] take_2_Cons render_v4_primary)
  have l3: "SendLog ''warning'' (emoji_warning @ '' No data in push event'') JNull
     \<in> set (fst (push_handler_v3 host h None))"
    by (rule decode_in_push_v3) (simp add: decode_v3_def)
  have l4: "SendLog ''warning'' (emoji_warning @ '' No data in push event'') JNull
     \<in> set (fst (push_handler_v4 host' h' None))"
    by (rule decode_in_push_v4) (simp add: decode_v4_def)
  from r3 l3 r4 l4 show ?thesis by blast
qed

lemma derive_v3_object:
  "derive_v3 (JObj kvs) =
     Inr (js_or (case map_of kvs ''title'' of Some v \<Rightarrow> v | None \<Rightarrow> JUndefined)
            (JStr ''Medication Reminder''),
          JObj [(''body'', js_or (case map_of kvs ''body'' of Some v \<Rightarrow> v | None \<Rightarrow> JUndefined)
                             (JStr ''It's time for a medication dose'')),
                (''icon'', JStr ''/navikinder-logo-256.png''),
                (''badge'', JStr ''/navikinder-logo-256.png''),
                (''data'', js_or (case map_of kvs ''data'' of Some v \<Rightarrow> v | None \<Rightarrow> JUndefined)
                             (JObj [])),
                (''requireInteraction'', JBool True)])"
  by (simp add: derive_v3_def)

lemma derive_v4_object:
  "derive_v4 (JObj kvs) =
     Inr (js_or (case map_of kvs ''title'' of Some v \<Rightarrow> v | None \<Rightarrow> JUndefined)
            (JStr ''Medication Reminder''),
          JObj [(''body'', js_or (case map_of kvs ''body'' of Some v \<Rightarrow> v | None \<Rightarrow> JUndefined)
                             (JStr ''It's time for a medication dose'')),
                (''icon'', JStr ''/navikinder-logo-256.png''),
                (''badge'', JStr ''/navikinder-logo-256.png''),
                (''data'', js_or (case map_of kvs ''data'' of Some v \<Rightarrow> v | None \<Rightarrow> JUndefined)
                             (JObj [])),
                (''requireInteraction'', JBool True)])"
  by (simp add: derive_v4_def)

text \<open>
  C1, as amended. A push event whose payload is a JSON object with a title and a body
  field: the notification both handlers ask for has that title when it is truthy and
  "Medication Reminder" when it is falsy (the empty string), that body when it is
  truthy and the default body otherwise; its options carry the icon, the badge, the
  payload's data field when that is truthy and an empty object otherwise, and
  requireInteraction set to true. In part_000 the debug notification is asked for first.
\<close>

theorem push_structured_payload:
  assumes "json_result d = Inr (JObj kvs)"
    and "map_of kvs ''title'' = Some t"
    and "map_of kvs ''body'' = Some b"
  shows
    "take 1 (renders (fst (push_handler_v3 host h (Some d)))) =
       [(if truthy t then t else JStr ''Medication Reminder'',
         JObj [(''body'', if truthy b then b else JStr ''It's time for a medication dose''),
               (''icon'', JStr ''/navikinder-logo-256.png''),
               (''badge'', JStr ''/navikinder-logo-256.png''),
               (''data'', case map_of kvs ''data'' of
                            Some v \<Rightarrow> if truthy v then v else JObj []
                          | None \<Rightarrow> JObj []),
               (''requireInteraction'', JBool True)])] \<and>
     take 2 (renders (fst (push_handler_v4 host' h' (Some d)))) =
       [(debug_title_v4, debug_options_v4),
        (if truthy t then t else JStr ''Medication Reminder'',
         JObj [(''body'', if truthy b then b else JStr ''It's time for a medication dose''),
               (''icon'', JStr ''/navikinder-logo-256.png''),
               (''badge'', JStr ''/navikinder-logo-256.png''),
               (''data'', case map_of kvs ''data'' of
                            Some v \<Rightarrow> if truthy v then v else JObj []
                          | None \<Rightarrow> JObj []),
               (''requireInteraction'', JBool True)])]"
proof -
  let ?title = "if truthy t then t else JStr ''Medication Reminder''"
  let ?opts = "JObj [(''body'', if truthy b then b else JStr ''It's time for a medication dose''),
               (''icon'', JStr ''/navikinder-logo-256.png''),
               (''badge'', JStr ''/navikinder-logo-256.png''),
               (''data'', case map_of kvs ''data'' of
                            Some v \<Rightarrow> if truthy v then v else JObj []
                          | None \<Rightarrow> JObj []),
               (''requireInteraction'', JBool True)]"
  have dec3: "snd (decode_v3 (Some d)) = JObj kvs"
    using assms(1) by (simp add: decode_v3_def)
  have dec4: "snd (decode_v4 (Some d)) = JObj kvs"
    using assms(1) by (simp add: decode_v4_def)
  have d3: "derive_v3 (snd (decode_v3 (Some d))) = Inr (?title, ?opts)"
    using assms(2,3)
    by (simp add: dec3 derive_v3_object js_or_def split: option.splits)
  have d4: "derive_v4 (snd (decode_v4 (Some d))) = Inr (?title, ?opts)"
    using assms(2,3)
    by (simp add: dec4 derive_v4_object js_or_def split: option.splits)
  have r3: "take 1 (renders (fst (push_handler_v3 host h (Some d)))) = [(?title, ?opts)]"
    by (simp only: renders_push_v3 [OF d3] render_v3_primary)
  have r4: "take 2 (renders (fst (push_handler_v4 host' h' (Some d)))) =
      [(debug_title_v4, debug_options_v4), (?title, ?opts)]"
    by (simp only: renders_push_v4 [OF d4] take_2_Cons render_v4_primary)
  from r3 r4 show ?thesis by blast
qed

text \<open>The theorem at a payload with a title, a body and a data field.\<close>

theorem push_structured_payload_witness:
  "take 1 (renders (fst (push_handler_v3 host_granted () (Some dose_event)))) =
     [(JStr ''Morning dose'',
       JObj [(''body'', JStr ''Take your pill''),
             (''icon'', JStr ''/navikinder-logo-256.png''),
             (''badge'', JStr ''/navikinder-logo-256.png''),
             (''data'', JObj [(''id'', JStr ''7'')]),
             (''requireInteraction'', JBool True)])] \<and>
   take 2 (renders (fst (push_handler_v4 host_denied () (Some dose_event)))) =
     [(debug_title_v4, debug_options_v4),
      (JStr ''Morning dose'',
       JObj [(''body'', JStr ''Take your pill''),
             (''icon'', JStr ''/navikinder-logo-256.png''),
             (''badge'', JStr ''/navikinder-logo-256.png''),
             (''data'', JObj [(''id'', JStr ''7'')]),
             (''requireInteraction'', JBool True)])]"
  using push_structured_payload [of dose_event
      "[(''title'', JStr ''Morning dose''), (''body'', JStr ''Take your pill''),
        (''data'', JObj [(''id'', JStr ''7'')])]"
      "JStr ''Morning dose''" "JStr ''Take your pill''" host_granted "()" host_denied "()"]
  by (simp add: dose_event_def)

text \<open>
  C1 as stated fails: the payload \<^verbatim>\<open>{"title":"","body":"Take your pill"}\<close> has a title
  field, and the notification asked for has the title "Medication Reminder".
\<close>

theorem push_empty_title_counterexample:
  "map fst (take 1 (renders (fst (push_handler_v3 host_granted () (Some empty_title_event))))) =
     [JStr ''Medication Reminder''] \<and>
   get_prop (case json_result empty_title_event of Inr v \<Rightarrow> v | Inl e \<Rightarrow> JUndefined) ''title'' =
     Inr (JStr [])"
  by (simp add: push_handler_v3_def decode_v3_def derive_v3_def render_v3_def js_or_def
      host_granted_def empty_title_event_def)

text \<open>
  C5, as amended. A push event whose payload is not JSON but is text: the decode yields
  an object whose only field is the body, the text; the notification both handlers ask
  for has that text as its body when the text is not empty, and the default body when it
  is empty; and the warning-level log call naming the text fallback has been made.
\<close>

theorem push_text_payload:
  assumes "json_result d = Inl e" and "text_result d = Inr t"
  shows
    "snd (decode_v3 (Some d)) = JObj [(''body'', JStr t)] \<and>
     snd (decode_v4 (Some d)) = JObj [(''body'', JStr t)] \<and>
     take 1 (renders (fst (push_handler_v3 host h (Some d)))) =
       [(JStr ''Medication Reminder'',
         JObj [(''body'', if t = [] then JStr ''It's time for a medication dose'' else JStr t),
               (''icon'', JStr ''/navikinder-logo-256.png''),
               (''badge'', JStr ''/navikinder-logo-256.png''),
               (''data'', JObj []),
               (''requireInteraction'', JBool True)])] \<and>
     SendLog ''warning'' (emoji_warning @ '' Using text fallback'') JNull
       \<in> set (fst (push_handler_v3 host h (Some d))) \<and>
     take 2 (renders (fst (push_handler_v4 host' h' (Some d)))) =
       [(debug_title_v4, debug_options_v4),
        (JStr ''Medication Reminder'',
         JObj [(''body'', if t = [] then JStr ''It's time for a medication dose'' else JStr t),
               (''icon'', JStr ''/navikinder-logo-256.png''),
               (''badge'', JStr ''/navikinder-logo-256.png''),
               (''data'', JObj []),
               (''requireInteraction'', JBool True)])] \<and>
     SendLog ''warning'' (emoji_warning @ '' Using text fallback'') JNull
       \<in> set (fst (push_handler_v4 host' h' (Some d)))"
proof -
  let ?opts = "JObj [(''body'', if t = [] then JStr ''It's time for a medication dose'' else JStr t),
               (''icon'', JStr ''/navikinder-logo-256.png''),
               (''badge'', JStr ''/navikinder-logo-256.png''),
               (''data'', JObj []),
               (''requireInteraction'', JBool True)]"
  have dec3: "snd (decode_v3 (Some d)) = JObj [(''body'', JStr t)]"
    using assms by (simp add: decode_v3_def)
  have dec4: "snd (decode_v4 (Some d)) = JObj [(''body'', JStr t)]"
    using assms by (simp add: decode_v4_def)
  have d3: "derive_v3 (snd (decode_v3 (Some d))) = Inr (JStr ''Medication Reminder'', ?opts)"
    by (simp add: dec3 derive_v3_def js_or_def)
  have d4: "derive_v4 (snd (decode_v4 (Some d))) = Inr (JStr ''Medication Reminder'', ?opts)"
    by (simp add: dec4 derive_v4_def js_or_def)
  have r3: "take 1 (renders (fst (push_handler_v3 host h (Some d)))) =
      [(JStr ''Medication Reminder'', ?opts)]"
    by (simp only: renders_push_v3 [OF d3] render_v3_primary)
  have r4: "take 2 (renders (fst (push_handler_v4 host' h' (Some d)))) =
      [(debug_title_v4, debug_options_v4), (JStr ''Medication Reminder'', ?opts)]"
    by (simp only: renders_push_v4 [OF d4] take_2_Cons render_v4_primary)
  have l3: "SendLog ''warning'' (emoji_warning @ '' Using text fallback'') JNull
      \<in> set (fst (push_handler_v3 host h (Some d)))"
    using assms by (intro decode_in_push_v3) (simp add: decode_v3_def)
  have l4: "SendLog ''warning'' (emoji_warning @ '' Using text fallback'') JNull
      \<in> set (fst (push_handler_v4 host' h' (Some d)))"
    using assms by (intro decode_in_push_v4) (simp add: decode_v4_def)
  from dec3 dec4 r3 l3 r4 l4 show ?thesis by blast
qed

text \<open>The theorem at the text "Time for your dose".\<close>

theorem push_text_payload_witness:
  "snd (decode_v3 (Some (text_event ''Time for your dose''))) =
     JObj [(''body'', JStr ''Time for your dose'')] \<and>
   take 1 (renders (fst (push_handler_v3 host_granted () (Some (text_event ''Time for your dose''))))) =
     [(JStr ''Medication Reminder'',
       JObj [(''body'', JStr ''Time for your dose''),
             (''icon'', JStr ''/navikinder-logo-256.png''),
             (''badge'', JStr ''/navikinder-logo-256.png''),
             (''data'', JObj []),
             (''requireInteraction'', JBool True)])] \<and>
   SendLog ''warning'' (emoji_warning @ '' Using text fallback'') JNull
     \<in> set (fst (push_handler_v4 host_granted () (Some (text_event ''Time for your dose''))))"
  using push_text_payload [of "text_event ''Time for your dose''"
      "JsError ''SyntaxError'' ''Unexpected token in JSON at position 0''"
      "''Time for your dose''" host_granted "()" host_granted "()"]
  by (simp add: text_event_def)

text \<open>
  C5 as stated fails: for the empty text the body of the notification asked for is the
  default body, not the text.
\<close>

theorem push_empty_text_counterexample:
  "text_result (text_event []) = Inr [] \<and>
   map (\<lambda>(title, options). get_prop options ''body'')
     (take 1 (renders (fst (push_handler_v3 host_granted () (Some (text_event [])))))) =
     [Inr (JStr ''It's time for a medication dose'')] \<and>
   JStr ''It's time for a medication dose'' \<noteq> JStr []"
  by (simp add: push_handler_v3_def decode_v3_def derive_v3_def render_v3_def js_or_def
      host_granted_def text_event_def)

text \<open>
  C9. The payload decode and the field derivation of src/public/sw.js and of
  src/unnamed/part_000 agree on every push event: the same log calls, the same decoded
  value, and from it the same title and options bundle, or the same TypeError.
\<close>

theorem push_decode_derive_same:
  "decode_v3 event_data = decode_v4 event_data \<and>
   derive_v3 data = derive_v4 data \<and>
   derive_v3 (snd (decode_v3 event_data)) = derive_v4 (snd (decode_v4 event_data))"
  by (simp add: decode_v3_def decode_v4_def derive_v3_def derive_v4_def)

lemma derive_v3_icon:
  "derive_v3 data = Inr (title, options) \<Longrightarrow>
   get_prop options ''icon'' = Inr (JStr ''/navikinder-logo-256.png'')"
  by (auto simp: derive_v3_def split: sum.splits)

lemma derive_v4_icon:
  "derive_v4 data = Inr (title, options) \<Longrightarrow>
   get_prop options ''icon'' = Inr (JStr ''/navikinder-logo-256.png'')"
  by (auto simp: derive_v4_def split: sum.splits)

lemma render_v3_failed:
  assumes "showNotification host h title options = (Some error, h1)"
    and "showNotification host h1 (JStr ''Medication Reminder'')
           (JObj [(''body'', JStr ''It's time for a medication dose''),
                  (''icon'', JStr ''/navikinder-logo-256.png'')]) = (r2, h2)"
  shows "renders (fst (render_v3 host h title options)) =
           [(title, options),
            (JStr ''Medication Reminder'',
             JObj [(''body'', JStr ''It's time for a medication dose''),
                   (''icon'', JStr ''/navikinder-logo-256.png'')])]"
    and "SendLog ''error'' (emoji_cross @ '' showNotification failed'')
           (JObj [(''name'', JStr (err_name error)), (''message'', JStr (err_message error)),
                  (''permission'', JStr (permission host))])
         \<in> set (fst (render_v3 host h title options))"
    and "r2 = Some fallbackError \<Longrightarrow>
         SendLog ''error'' (emoji_cross @ '' Even fallback notification failed'')
           (JStr (err_message fallbackError))
         \<in> set (fst (render_v3 host h title options))"
  using assms by (cases r2; simp add: render_v3_def)+

lemma render_v4_failed:
  assumes "showNotification host h title options = (Some error, h1)"
    and "showNotification host h1 (JStr ''Medication Reminder'')
           (JObj [(''body'', JStr ''It's time for a medication dose''),
                  (''icon'', JStr ''https://via.placeholder.com/192x192.png'')]) = (r2, h2)"
  shows "renders (fst (render_v4 host h title options)) =
           [(title, options),
            (JStr ''Medication Reminder'',
             JObj [(''body'', JStr ''It's time for a medication dose''),
                   (''icon'', JStr ''https://via.placeholder.com/192x192.png'')])]"
    and "SendLog ''error'' (emoji_cross @ '' Main showNotification failed'')
           (JObj [(''name'', JStr (err_name error)), (''message'', JStr (err_message error)),
                  (''permission'', JStr (permission host))])
         \<in> set (fst (render_v4 host h title options))"
    and "r2 = Some fallbackError \<Longrightarrow>
         SendLog ''error'' (emoji_cross @ '' Even fallback notification failed'')
           (JStr (err_message fallbackError))
         \<in> set (fst (render_v4 host h title options))"
  using assms by (cases r2; simp add: render_v4_def)+

text \<open>
  C3, as amended. When the primary \<^verbatim>\<open>showNotification\<close> call rejects, each handler asks
  for exactly one more notification, with the title "Medication Reminder", the fixed
  body and a fixed icon: in src/public/sw.js the icon of the primary attempt, in
  src/unnamed/part_000 the placeholder icon of its debug notification. The task handed
  to \<^verbatim>\<open>event.waitUntil\<close> is fulfilled; and when the fallback rejects as well, the two
  error-level log calls, of different messages, have been made.
\<close>

theorem push_render_fallback:
  "(derive_v3 (snd (decode_v3 ev)) = Inr (title, options) \<and>
    showNotification host h title options = (Some error, h1) \<and>
    showNotification host h1 (JStr ''Medication Reminder'')
      (JObj [(''body'', JStr ''It's time for a medication dose''),
             (''icon'', JStr ''/navikinder-logo-256.png'')]) = (r2, h2) \<longrightarrow>
    renders (fst (push_handler_v3 host h ev)) =
      [(title, options),
       (JStr ''Medication Reminder'',
        JObj [(''body'', JStr ''It's time for a medication dose''),
              (''icon'', JStr ''/navikinder-logo-256.png'')])] \<and>
    get_prop options ''icon'' = Inr (JStr ''/navikinder-logo-256.png'') \<and>
    fst (snd (push_handler_v3 host h ev)) = Fulfilled \<and>
    (\<forall>fallbackError. r2 = Some fallbackError \<longrightarrow>
       SendLog ''error'' (emoji_cross @ '' showNotification failed'')
         (JObj [(''name'', JStr (err_name error)), (''message'', JStr (err_message error)),
                (''permission'', JStr (permission host))])
         \<in> set (fst (push_handler_v3 host h ev)) \<and>
       SendLog ''error'' (emoji_cross @ '' Even fallback notification failed'')
         (JStr (err_message fallbackError))
         \<in> set (fst (push_handler_v3 host h ev)) \<and>
       emoji_cross @ '' showNotification failed'' \<noteq>
         emoji_cross @ '' Even fallback notification failed'')) \<and>
   (derive_v4 (snd (decode_v4 ev')) = Inr (title', options') \<and>
    showNotification host' (snd (debug_v4 host' h')) title' options' = (Some error', h1') \<and>
    showNotification host' h1' (JStr ''Medication Reminder'')
      (JObj [(''body'', JStr ''It's time for a medication dose''),
             (''icon'', JStr ''https://via.placeholder.com/192x192.png'')]) = (r2', h2') \<longrightarrow>
    renders (fst (push_handler_v4 host' h' ev')) =
      [(debug_title_v4, debug_options_v4),
       (title', options'),
       (JStr ''Medication Reminder'',
        JObj [(''body'', JStr ''It's time for a medication dose''),
              (''icon'', JStr ''https://via.placeholder.com/192x192.png'')])] \<and>
    get_prop options' ''icon'' = Inr (JStr ''/navikinder-logo-256.png'') \<and>
    get_prop debug_options_v4 ''icon'' = Inr (JStr ''https://via.placeholder.com/192x192.png'') \<and>
    fst (snd (push_handler_v4 host' h' ev')) = Fulfilled \<and>
    (\<forall>fallbackError. r2' = Some fallbackError \<longrightarrow>
       SendLog ''error'' (emoji_cross @ '' Main showNotification failed'')
         (JObj [(''name'', JStr (err_name error')), (''message'', JStr (err_message error')),
                (''permission'', JStr (permission host'))])
         \<in> set (fst (push_handler_v4 host' h' ev')) \<and>
       SendLog ''error'' (emoji_cross @ '' Even fallback notification failed'')
         (JStr (err_message fallbackError))
         \<in> set (fst (push_handler_v4 host' h' ev')) \<and>
       emoji_cross @ '' Main showNotification failed'' \<noteq>
         emoji_cross @ '' Even fallback notification failed''))"
proof (intro conjI impI allI; (elim conjE)?)
  assume d: "derive_v3 (snd (decode_v3 ev)) = Inr (title, options)"
    and p: "showNotification host h title options = (Some error, h1)"
    and f: "showNotification host h1 (JStr ''Medication Reminder'')
      (JObj [(''body'', JStr ''It's time for a medication dose''),
             (''icon'', JStr ''/navikinder-logo-256.png'')]) = (r2, h2)"
  show "renders (fst (push_handler_v3 host h ev)) =
      [(title, options),
       (JStr ''Medication Reminder'',
        JObj [(''body'', JStr ''It's time for a medication dose''),
              (''icon'', JStr ''/navikinder-logo-256.png'')])]"
    by (simp only: renders_push_v3 [OF d] render_v3_failed(1) [OF p f])
  show "get_prop options ''icon'' = Inr (JStr ''/navikinder-logo-256.png'')"
    by (rule derive_v3_icon [OF d])
  show "fst (snd (push_handler_v3 host h ev)) = Fulfilled"
    by (rule push_v3_settles [OF d])
  show "SendLog ''error'' (emoji_cross @ '' showNotification failed'')
         (JObj [(''name'', JStr (err_name error)), (''message'', JStr (err_message error)),
                (''permission'', JStr (permission host))])
         \<in> set (fst (push_handler_v3 host h ev))"
    by (rule render_in_push_v3 [OF d render_v3_failed(2) [OF p f]])
  show "SendLog ''error'' (emoji_cross @ '' Even fallback notification failed'')
         (JStr (err_message fallbackError))
         \<in> set (fst (push_handler_v3 host h ev))"
    if "r2 = Some fallbackError" for fallbackError
    by (rule render_in_push_v3 [OF d render_v3_failed(3) [OF p f that]])
next
  show "emoji_cross @ '' showNotification failed'' \<noteq>
         emoji_cross @ '' Even fallback notification failed''"
    by simp
next
  assume d: "derive_v4 (snd (decode_v4 ev')) = Inr (title', options')"
    and p: "showNotification host' (snd (debug_v4 host' h')) title' options' = (Some error', h1')"
    and f: "showNotification host' h1' (JStr ''Medication Reminder'')
      (JObj [(''body'', JStr ''It's time for a medication dose''),
             (''icon'', JStr ''https://via.placeholder.com/192x192.png'')]) = (r2', h2')"
  show "renders (fst (push_handler_v4 host' h' ev')) =
      [(debug_title_v4, debug_options_v4),
       (title', options'),
       (JStr ''Medication Reminder'',
        JObj [(''body'', JStr ''It's time for a medication dose''),
              (''icon'', JStr ''https://via.placeholder.com/192x192.png'')])]"
    by (simp only: renders_push_v4 [OF d] render_v4_failed(1) [OF p f])
  show "get_prop options' ''icon'' = Inr (JStr ''/navikinder-logo-256.png'')"
    by (rule derive_v4_icon [OF d])
  show "fst (snd (push_handler_v4 host' h' ev')) = Fulfilled"
    by (rule push_v4_settles [OF d])
  show "SendLog ''error'' (emoji_cross @ '' Main showNotification failed'')
         (JObj [(''name'', JStr (err_name error')), (''message'', JStr (err_message error')),
                (''permission'', JStr (permission host'))])
         \<in> set (fst (push_handler_v4 host' h' ev'))"
    by (rule render_in_push_v4 [OF d render_v4_failed(2) [OF p f]])
  show "SendLog ''error'' (emoji_cross @ '' Even fallback notification failed'')
         (JStr (err_message fallbackError))
         \<in> set (fst (push_handler_v4 host' h' ev'))"
    if "r2' = Some fallbackError" for fallbackError
    by (rule render_in_push_v4 [OF d render_v4_failed(3) [OF p f that]])
next
  show "get_prop debug_options_v4 ''icon'' = Inr (JStr ''https://via.placeholder.com/192x192.png'')"
    by (simp add: debug_options_v4_def)
next
  show "emoji_cross @ '' Main showNotification failed'' \<noteq>
         emoji_cross @ '' Even fallback notification failed''"
    by simp
qed

text \<open>The theorem at a host that rejects every notification, for an event without data.\<close>

theorem push_render_fallback_witness:
  "renders (fst (push_handler_v3 host_denied () None)) =
     [(JStr ''Medication Reminder'',
       JObj [(''body'', JStr ''It's time for a medication dose''),
             (''icon'', JStr ''/navikinder-logo-256.png''),
             (''badge'', JStr ''/navikinder-logo-256.png''),
             (''data'', JObj []),
             (''requireInteraction'', JBool True)]),
      (JStr ''Medication Reminder'',
       JObj [(''body'', JStr ''It's time for a medication dose''),
             (''icon'', JStr ''/navikinder-logo-256.png'')])] \<and>
   fst (snd (push_handler_v3 host_denied () None)) = Fulfilled \<and>
   SendLog ''error'' (emoji_cross @ '' Even fallback notification failed'')
     (JStr ''No notification permission has been granted'')
     \<in> set (fst (push_handler_v3 host_denied () None)) \<and>
   renders (fst (push_handler_v4 host_denied () None)) =
     [(debug_title_v4, debug_options_v4),
      (JStr ''Medication Reminder'',
       JObj [(''body'', JStr ''It's time for a medication dose''),
             (''icon'', JStr ''/navikinder-logo-256.png''),
             (''badge'', JStr ''/navikinder-logo-256.png''),
             (''data'', JObj []),
             (''requireInteraction'', JBool True)]),
      (JStr ''Medication Reminder'',
       JObj [(''body'', JStr ''It's time for a medication dose''),
             (''icon'', JStr ''https://via.placeholder.com/192x192.png'')])] \<and>
   fst (snd (push_handler_v4 host_denied () None)) = Fulfilled \<and>
   SendLog ''error'' (emoji_cross @ '' Even fallback notification failed'')
     (JStr ''No notification permission has been granted'')
     \<in> set (fst (push_handler_v4 host_denied () None))"
  using push_render_fallback [where ev = None and ev' = None
      and host = host_denied and host' = host_denied and h = "()" and h' = "()"
      and title = "JStr ''Medication Reminder''" and title' = "JStr ''Medication Reminder''"
      and options = "JObj [(''body'', JStr ''It's time for a medication dose''),
             (''icon'', JStr ''/navikinder-logo-256.png''),
             (''badge'', JStr ''/navikinder-logo-256.png''),
             (''data'', JObj []),
             (''requireInteraction'', JBool True)]"
      and options' = "JObj [(''body'', JStr ''It's time for a medication dose''),
             (''icon'', JStr ''/navikinder-logo-256.png''),
             (''badge'', JStr ''/navikinder-logo-256.png''),
             (''data'', JObj []),
             (''requireInteraction'', JBool True)]"
      and error = "JsError ''TypeError'' ''No notification permission has been granted''"
      and error' = "JsError ''TypeError'' ''No notification permission has been granted''"
      and ?r2.0 = "Some (JsError ''TypeError'' ''No notification permission has been granted'')"
      and r2' = "Some (JsError ''TypeError'' ''No notification permission has been granted'')"
      and ?h1.0 = "()" and h1' = "()" and ?h2.0 = "()" and h2' = "()"]
  by (simp add: decode_v3_def derive_v3_def decode_v4_def derive_v4_def js_or_def
      host_denied_def)

text \<open>
  C3 as stated fails in src/unnamed/part_000: the icons of the debug, the primary and the
  fallback notification, in this order; the fallback's is not the primary's.
\<close>

theorem push_fallback_icon_counterexample:
  "map (\<lambda>(title, options). get_prop options ''icon'')
     (renders (fst (push_handler_v4 host_denied () None))) =
     [Inr (JStr ''https://via.placeholder.com/192x192.png''),
      Inr (JStr ''/navikinder-logo-256.png''),
      Inr (JStr ''https://via.placeholder.com/192x192.png'')] \<and>
   JStr ''https://via.placeholder.com/192x192.png'' \<noteq> JStr ''/navikinder-logo-256.png''"
  by (simp add: push_handler_v4_def decode_v4_def derive_v4_def debug_v4_def render_v4_def
      js_or_def host_denied_def debug_title_v4_def debug_options_v4_def)

subsection \<open>The activate handler\<close>

lemma delete_stale_completed:
  "delete_stale cache_name host names st = ([], st') \<Longrightarrow>
   st' = filter (\<lambda>kv. fst kv \<notin> set names - {cache_name}) st"
proof (induction names arbitrary: st)
  case Nil
  then show ?case by simp
next
  case (Cons cacheName rest)
  show ?case
  proof (cases "cacheName = cache_name")
    case True
    with Cons.prems have "delete_stale cache_name host rest st = ([], st')"
      by simp
    from Cons.IH [OF this] True show ?thesis
      by (auto intro: filter_cong)
  next
    case False
    with Cons.prems obtain found st1 where
      del: "caches_delete host st cacheName = Inr (found, st1)"
      and rest: "delete_stale cache_name host rest st1 = ([], st')"
      by (auto split: sum.splits prod.splits)
    from del have st1: "st1 = filter (\<lambda>kv. fst kv \<noteq> cacheName) st"
      by (auto simp: caches_delete_def split: option.splits)
    from Cons.IH [OF rest] st1 False show ?thesis
      by (auto intro: filter_cong)
  qed
qed

text \<open>
  C2. When the cleanup of the activate handler completes (the promise handed to
  \<^verbatim>\<open>event.waitUntil\<close> is fulfilled), the storage holds the bucket named \<open>cache_name\<close>
  as it was, if there was one, and no other bucket: every bucket of another name has been
  deleted. This holds for every \<open>cache_name\<close>, so for \<open>CACHE_NAME_v3\<close> of
  src/public/sw.js and \<open>CACHE_NAME_v4\<close> of src/unnamed/part_000.
\<close>

theorem activate_cleanup:
  assumes "activate_handler cache_name host st = (trace, Fulfilled, st')"
  shows "st' = filter (\<lambda>kv. fst kv = cache_name) st \<and>
         (\<forall>name. name \<noteq> cache_name \<longrightarrow> name \<notin> set (map fst st')) \<and>
         (cache_name \<in> set (map fst st) \<longrightarrow> cache_name \<in> set (map fst st')) \<and>
         map_of st' cache_name = map_of st cache_name \<and>
         set (map fst st') \<subseteq> {cache_name}"
proof -
  from assms obtain names where
    keys: "caches_keys host st = Inr names"
    and del: "delete_stale cache_name host names st = ([], st')"
    by (auto simp: activate_handler_def split: sum.splits prod.splits list.splits)
  from keys have names: "names = map fst st"
    by (auto simp: caches_keys_def split: option.splits)
  have st': "st' = filter (\<lambda>kv. fst kv = cache_name) st"
    unfolding delete_stale_completed [OF del] names
    by (rule filter_cong) auto
  have "map_of (filter (\<lambda>kv. fst kv = cache_name) st) cache_name = map_of st cache_name"
    by (induction st) auto
  with st' show ?thesis by auto
qed

text \<open>
  The theorem at a storage with the buckets of three versions and one more, under
  \<open>CACHE_NAME_v4\<close>.
\<close>

theorem activate_cleanup_witness:
  "activate_handler CACHE_NAME_v4 cache_host_ok old_storage =
     ([ConsoleLog [JStr (emoji_arrows @ '' Service Worker activated'')], ClientsClaim,
       ConsoleLog [JStr (emoji_broom @ '' Cache cleanup complete'')],
       SetTimeout ''sendInitialLog'' 1000],
      Fulfilled,
      [(''medication-tracker-v4'', [(''/'', Response 200 ''shell v4'')])]) \<and>
   [(''medication-tracker-v4'', [(''/'', Response 200 ''shell v4'')])] =
     filter (\<lambda>kv. fst kv = CACHE_NAME_v4) old_storage \<and>
   map_of [(''medication-tracker-v4'', [(''/'', Response 200 ''shell v4'')])] CACHE_NAME_v4 =
     map_of old_storage CACHE_NAME_v4"
proof -
  have run: "activate_handler CACHE_NAME_v4 cache_host_ok old_storage =
     ([ConsoleLog [JStr (emoji_arrows @ '' Service Worker activated'')], ClientsClaim,
       ConsoleLog [JStr (emoji_broom @ '' Cache cleanup complete'')],
       SetTimeout ''sendInitialLog'' 1000],
      Fulfilled,
      [(''medication-tracker-v4'', [(''/'', Response 200 ''shell v4'')])])"
    by (simp add: activate_handler_def caches_keys_def caches_delete_def cache_host_ok_def
        old_storage_def CACHE_NAME_v4_def)
  from activate_cleanup [OF run] run show ?thesis
    by (simp add: CACHE_NAME_v4_def old_storage_def)
qed

lemma delete_stale_no_failure:
  "(\<And>name. delete_error host name = None) \<Longrightarrow>
   fst (delete_stale cache_name host names st) = []"
  by (induction names arbitrary: st) (simp_all add: caches_delete_def)

lemma activate_completes:
  assumes "keys_error host = None" and "\<And>name. delete_error host name = None"
  shows "fst (snd (activate_handler cache_name host st)) = Fulfilled"
proof -
  have "fst (delete_stale cache_name host (map fst st) st) = []"
    using assms(2) by (rule delete_stale_no_failure)
  then show ?thesis
    using assms(1)
    by (cases "delete_stale cache_name host (map fst st) st")
      (simp add: activate_handler_def caches_keys_def)
qed

subsection \<open>The install handler\<close>

text \<open>
  C8. The promise the install handler hands to \<^verbatim>\<open>event.waitUntil\<close> is always fulfilled:
  when opening the bucket fails, or when populating it with \<open>urlsToCache\<close> fails, the
  error is written to the console and the installation goes on.
\<close>

theorem install_never_fails:
  "fst (snd (install_handler cache_name host st)) = Fulfilled \<and>
   (\<forall>error. caches_open host st cache_name = Inl error \<longrightarrow>
      install_handler cache_name host st =
        ([SkipWaiting, ConsoleError [JStr ''Cache installation failed:'', err_val error]],
         Fulfilled, st)) \<and>
   (\<forall>st1 error.
      caches_open host st cache_name = Inr st1 \<and>
      cache_addAll host st1 cache_name urlsToCache = Inl error \<longrightarrow>
      install_handler cache_name host st =
        ([SkipWaiting, ConsoleError [JStr ''Cache installation failed:'', err_val error]],
         Fulfilled, st1))"
  by (simp add: install_handler_def split: sum.splits)

text \<open>The theorem at a host whose \<^verbatim>\<open>addAll\<close> rejects, on an empty storage.\<close>

theorem install_never_fails_witness:
  "fst (snd (install_handler CACHE_NAME_v3 cache_host_offline [])) = Fulfilled \<and>
   install_handler CACHE_NAME_v3 cache_host_offline [] =
     ([SkipWaiting,
       ConsoleError [JStr ''Cache installation failed:'',
                     err_val (JsError ''TypeError'' ''Failed to fetch'')]],
      Fulfilled, [(''medication-tracker-v3'', [])])"
  using install_never_fails [of CACHE_NAME_v3 cache_host_offline "[]"]
  by (simp add: caches_open_def cache_addAll_def cache_host_offline_def CACHE_NAME_v3_def)

subsection \<open>The fetch handler\<close>

lemma fetch_cache_hit:
  "caches_match host req = Inr (Some response) \<Longrightarrow>
   fetch_handler host n req = ([], Inr response, n)"
  by (simp add: fetch_handler_def)

lemma fetch_cache_miss_network_ok:
  "caches_match host req = Inr None \<Longrightarrow> net_fetch host n req = (Inr response, n1) \<Longrightarrow>
   fetch_handler host n req = ([NetFetch req], Inr response, n1)"
  by (simp add: fetch_handler_def)

lemma fetch_cache_miss_network_failed:
  "caches_match host req = Inr None \<Longrightarrow> net_fetch host n req = (Inl error, n1) \<Longrightarrow>
   fetches (fst (fetch_handler host n req)) = [req, req] \<and>
   snd (fetch_handler host n req) = net_fetch host n1 req"
  by (simp add: fetch_handler_def split: prod.splits)

lemma fetch_lookup_failed:
  "caches_match host req = Inl error \<Longrightarrow>
   fetches (fst (fetch_handler host n req)) = [req] \<and>
   snd (fetch_handler host n req) = net_fetch host n req"
  by (simp add: fetch_handler_def split: prod.splits)

text \<open>
  C7. The hit and the failed lookup are as the claim says (\<open>fetch_cache_hit\<close>,
  \<open>fetch_lookup_failed\<close>), and so is a miss the network answers
  (\<open>fetch_cache_miss_network_ok\<close>). On a miss whose fetch the network rejects, the
  handler does not return that failure: the outer \<^verbatim>\<open>catch\<close> reports a failed cache
  lookup and fetches again. Here the second fetch is answered, and its response is what
  the handler returns.
\<close>

theorem fetch_retries_after_network_failure:
  "caches_match flaky_host (Request ''GET'' ''https://app.test/api/doses'') = Inr None \<and>
   fst (net_fetch flaky_host 0 (Request ''GET'' ''https://app.test/api/doses'')) =
     Inl (JsError ''TypeError'' ''Failed to fetch'') \<and>
   fetch_handler flaky_host 0 (Request ''GET'' ''https://app.test/api/doses'') =
     ([NetFetch (Request ''GET'' ''https://app.test/api/doses''),
       ConsoleError [JStr ''Network fetch failed:'',
                     err_val (JsError ''TypeError'' ''Failed to fetch'')],
       ConsoleError [JStr ''Cache lookup failed:'',
                     err_val (JsError ''TypeError'' ''Failed to fetch'')],
       NetFetch (Request ''GET'' ''https://app.test/api/doses'')],
      Inr (Response 200 ''fresh''), 2)"
  by (simp add: fetch_handler_def flaky_host_def)

subsection \<open>The log relay\<close>

lemma forEach_post_v4_each:
  assumes "c \<in> set cs"
  shows "(postMessage_error host (client_id c) logMessage = None \<longrightarrow>
            PostMessage (client_id c) logMessage \<in> set (forEach_post_v4 host logMessage i cs)) \<and>
         (\<forall>clientError. postMessage_error host (client_id c) logMessage = Some clientError \<longrightarrow>
            (\<exists>k. ConsoleError
               [JStr (''[SW] Failed to send to client '' @ string_of_nat k @ '':''),
                err_val clientError] \<in> set (forEach_post_v4 host logMessage i cs)))"
  using assms
proof (induction cs arbitrary: i)
  case Nil
  then show ?case by simp
next
  case (Cons d ds)
  show ?case
  proof (cases "c = d")
    case True
    then show ?thesis
      by (auto simp del: string_of_nat.simps)
  next
    case False
    with Cons.prems have "c \<in> set ds" by simp
    from Cons.IH [OF this, of "i + 1"] show ?thesis
      by (auto simp del: string_of_nat.simps)
  qed
qed

lemma sendLogToApp_v4_relay:
  assumes "matchAll_error host = None"
    and "c \<in> set (clients host)" and "client_kind c = WindowClient"
    and "client_origin c = worker_origin host"
  shows "snd (sendLogToApp_v4 host logType message data) = Fulfilled \<and>
         (postMessage_error host (client_id c)
            (JObj [(''type'', JStr ''SW_LOG''), (''logType'', JStr logType),
                   (''message'', JStr message), (''data'', data),
                   (''timestamp'', JStr (clock host 0))]) = None \<longrightarrow>
          PostMessage (client_id c)
            (JObj [(''type'', JStr ''SW_LOG''), (''logType'', JStr logType),
                   (''message'', JStr message), (''data'', data),
                   (''timestamp'', JStr (clock host 0))])
          \<in> set (fst (sendLogToApp_v4 host logType message data))) \<and>
         (\<forall>clientError.
            postMessage_error host (client_id c)
              (JObj [(''type'', JStr ''SW_LOG''), (''logType'', JStr logType),
                     (''message'', JStr message), (''data'', data),
                     (''timestamp'', JStr (clock host 0))]) = Some clientError \<longrightarrow>
            (\<exists>k. ConsoleError
               [JStr (''[SW] Failed to send to client '' @ string_of_nat k @ '':''),
                err_val clientError] \<in> set (fst (sendLogToApp_v4 host logType message data))))"
proof -
  let ?cs = "filter (\<lambda>c. client_origin c = worker_origin host \<and>
                       (True \<or> controlled c) \<and> type_matches (Some WindowClient) c)
               (clients host)"
  have m: "matchAll host True (Some WindowClient) = Inr ?cs"
    using assms(1) by (simp add: matchAll_def)
  have "c \<in> set ?cs"
    using assms(2,3,4) by (simp add: type_matches_def)
  from forEach_post_v4_each [OF this] show ?thesis
    by (simp add: sendLogToApp_v4_def m del: string_of_nat.simps)
qed

lemma sendLogToApp_v4_never_rejects:
  "snd (sendLogToApp_v4 host logType message data) = Fulfilled"
  by (simp add: sendLogToApp_v4_def split: sum.splits)

text \<open>
  C4. \<^verbatim>\<open>sendLogToApp\<close> of src/unnamed/part_000 does what the claim says
  (\<open>sendLogToApp_v4_relay\<close>, \<open>sendLogToApp_v4_never_rejects\<close>). That of
  src/public/sw.js does not: with a controlled and an uncontrolled window open it posts
  to the controlled one only, where part_000 posts to both; and when \<^verbatim>\<open>postMessage\<close> to
  the first client throws, nothing is posted to any later client and the error is left
  as an unhandled rejection.
\<close>

theorem sendLogToApp_v3_skips_uncontrolled:
  "posted_to (fst (sendLogToApp_v3 two_windows ''info'' ''Service Worker is ready'' JNull)) = [1] \<and>
   posted_to (fst (sendLogToApp_v4 two_windows ''info'' ''Service Worker is ready'' JNull)) = [1, 2] \<and>
   sendLogToApp_v3
     (two_windows\<lparr>postMessage_error :=
        (\<lambda>cid msg. if cid = 1 then Some (JsError ''DataCloneError'' ''could not be cloned'')
                    else None)\<rparr>)
     ''info'' ''Service Worker is ready'' JNull =
     ([ConsoleLog [JStr ''[SW] Service Worker is ready'', JStr []]],
      Some (JsError ''DataCloneError'' ''could not be cloned''))"
  by (simp add: sendLogToApp_v3_def sendLogToApp_v4_def matchAll_def type_matches_def
      two_windows_def js_or_def)

subsection \<open>The notificationclick handler\<close>

lemma starts_with_iff: "starts_with s sub \<longleftrightarrow> (\<exists>post. s = sub @ post)"
  by (induction s sub rule: starts_with.induct) auto

lemma includes_js_iff: "includes_js s sub \<longleftrightarrow> (\<exists>pre post. s = pre @ sub @ post)"
proof (induction s)
  case Nil
  then show ?case by (simp add: starts_with_iff)
next
  case (Cons d s)
  show ?case
  proof
    assume "includes_js (d # s) sub"
    then consider "starts_with (d # s) sub" | "includes_js s sub" by auto
    then show "\<exists>pre post. d # s = pre @ sub @ post"
    proof cases
      case 1
      then obtain post where "d # s = [] @ sub @ post"
        by (auto simp: starts_with_iff)
      then show ?thesis by blast
    next
      case 2
      with Cons.IH obtain pre post where "s = pre @ sub @ post" by blast
      then have "d # s = (d # pre) @ sub @ post" by simp
      then show ?thesis by blast
    qed
  next
    assume "\<exists>pre post. d # s = pre @ sub @ post"
    then obtain pre post where eq: "d # s = pre @ sub @ post" by blast
    show "includes_js (d # s) sub"
    proof (cases pre)
      case Nil
      with eq have "starts_with (d # s) sub"
        by (auto simp: starts_with_iff)
      then show ?thesis by simp
    next
      case (Cons p pre')
      with eq have "s = pre' @ sub @ post" by simp
      with Cons.IH have "includes_js s sub" by blast
      then show ?thesis by simp
    qed
  qed
qed

lemma find_client_Some:
  "find_client origin cs = Some c \<Longrightarrow> c \<in> set cs \<and> includes_js (client_url c) origin"
  by (induction cs) (auto split: if_splits)

lemma find_client_first:
  assumes "includes_js (client_url c) origin"
    and "\<forall>d\<in>set pre. \<not> includes_js (client_url d) origin"
  shows "find_client origin (pre @ c # post) = Some c"
  using assms by (induction pre) simp_all

lemma find_client_none:
  "\<forall>d\<in>set cs. \<not> includes_js (client_url d) origin \<Longrightarrow> find_client origin cs = None"
  by (induction cs) simp_all

lemma matchAll_same_origin:
  "matchAll host includeUncontrolled ty = Inr cs \<Longrightarrow> c \<in> set cs \<Longrightarrow>
   c \<in> set (clients host) \<and> client_origin c = worker_origin host"
  by (auto simp: matchAll_def split: option.splits)

lemma click_focus_found:
  "FocusClient c \<in> set (fst (notificationclick_handler host)) \<Longrightarrow>
   \<exists>cs. matchAll host True (Some WindowClient) = Inr cs \<and>
        find_client (worker_origin host) cs = Some c"
  by (auto simp: notificationclick_handler_def split: sum.splits option.splits)

text \<open>
  C10, as amended. The handler matches by \<^verbatim>\<open>client.url.includes(self.location.origin)\<close>,
  containment of the origin string anywhere in the URL, not by origin equality. Of the
  windows the host lists, which are all of the worker's origin, the first whose URL
  contains the origin string is focused and no window is opened; a listed window whose
  URL does not contain it is passed over, though it is of the worker's origin; and when
  no listed URL contains it, a window is opened at \<^verbatim>\<open>/overview\<close> and none is focused.
\<close>

theorem click_matches_by_substring:
  assumes "matchAll host True (Some WindowClient) = Inr cs"
  shows
    "(\<forall>c\<in>set cs. client_origin c = worker_origin host) \<and>
     (\<forall>pre c post.
        cs = pre @ c # post \<and>
        (\<exists>a b. client_url c = a @ worker_origin host @ b) \<and>
        (\<forall>d\<in>set pre. \<not> (\<exists>a b. client_url d = a @ worker_origin host @ b)) \<longrightarrow>
        take 2 (fst (notificationclick_handler host)) = [CloseNotification, FocusClient c] \<and>
        OpenWindow ''/overview'' \<notin> set (fst (notificationclick_handler host))) \<and>
     ((\<forall>d\<in>set cs. \<not> (\<exists>a b. client_url d = a @ worker_origin host @ b)) \<longrightarrow>
        take 2 (fst (notificationclick_handler host)) =
          [CloseNotification, OpenWindow ''/overview''] \<and>
        (\<forall>c. FocusClient c \<notin> set (fst (notificationclick_handler host))))"
proof (intro conjI allI impI ballI)
  fix c assume "c \<in> set cs"
  with assms show "client_origin c = worker_origin host"
    by (simp add: matchAll_same_origin)
next
  fix pre c post
  assume h: "cs = pre @ c # post \<and>
        (\<exists>a b. client_url c = a @ worker_origin host @ b) \<and>
        (\<forall>d\<in>set pre. \<not> (\<exists>a b. client_url d = a @ worker_origin host @ b))"
  then have "find_client (worker_origin host) cs = Some c"
    by (simp add: find_client_first includes_js_iff)
  with assms
  show "take 2 (fst (notificationclick_handler host)) = [CloseNotification, FocusClient c]"
    and "OpenWindow ''/overview'' \<notin> set (fst (notificationclick_handler host))"
    by (simp_all add: notificationclick_handler_def split: option.splits)
next
  assume h: "\<forall>d\<in>set cs. \<not> (\<exists>a b. client_url d = a @ worker_origin host @ b)"
  then have none: "find_client (worker_origin host) cs = None"
    by (simp add: find_client_none includes_js_iff)
  with assms
  show "take 2 (fst (notificationclick_handler host)) =
          [CloseNotification, OpenWindow ''/overview'']"
    by (simp add: notificationclick_handler_def split: option.splits)
  fix c
  from assms none
  show "FocusClient c \<notin> set (fst (notificationclick_handler host))"
    by (simp add: notificationclick_handler_def split: option.splits)
qed

lemma blank_not_app: "\<not> (\<exists>a b. ''about:blank'' = a @ ''https://app.test'' @ b)"
  unfolding includes_js_iff [symmetric] by simp

text \<open>
  The theorem at a host with a window of another origin, a window at \<^verbatim>\<open>about:blank\<close>
  of the worker's origin and a window of the application: the last is focused. With
  the \<^verbatim>\<open>about:blank\<close> window alone, a new window is opened.
\<close>

theorem click_matches_by_substring_witness:
  "matchAll blank_then_app True (Some WindowClient) = Inr [blank_window, app_window] \<and>
   client_origin blank_window = worker_origin blank_then_app \<and>
   take 2 (fst (notificationclick_handler blank_then_app)) =
     [CloseNotification, FocusClient app_window] \<and>
   OpenWindow ''/overview'' \<notin> set (fst (notificationclick_handler blank_then_app)) \<and>
   matchAll blank_only True (Some WindowClient) = Inr [blank_window] \<and>
   take 2 (fst (notificationclick_handler blank_only)) =
     [CloseNotification, OpenWindow ''/overview'']"
proof -
  have m1: "matchAll blank_then_app True (Some WindowClient) = Inr [blank_window, app_window]"
    by (simp add: matchAll_def blank_then_app_def type_matches_def evil_window_def
        blank_window_def app_window_def)
  have m2: "matchAll blank_only True (Some WindowClient) = Inr [blank_window]"
    by (simp add: matchAll_def blank_only_def type_matches_def blank_window_def)
  have app: "\<exists>a b. client_url app_window = a @ worker_origin blank_then_app @ b"
    unfolding includes_js_iff [symmetric] by (simp add: app_window_def blank_then_app_def)
  have blank1: "\<not> (\<exists>a b. client_url blank_window = a @ worker_origin blank_then_app @ b)"
    using blank_not_app by (simp add: blank_window_def blank_then_app_def)
  have blank2: "\<not> (\<exists>a b. client_url blank_window = a @ worker_origin blank_only @ b)"
    using blank_not_app by (simp add: blank_window_def blank_only_def)
  have "take 2 (fst (notificationclick_handler blank_then_app)) =
     [CloseNotification, FocusClient app_window] \<and>
   OpenWindow ''/overview'' \<notin> set (fst (notificationclick_handler blank_then_app))"
    by (rule click_matches_by_substring [OF m1, THEN conjunct2, THEN conjunct1, rule_format,
          of "[blank_window]" app_window "[]"])
      (use app blank1 in simp)
  moreover
  have "take 2 (fst (notificationclick_handler blank_only)) =
     [CloseNotification, OpenWindow ''/overview'']"
    using click_matches_by_substring [OF m2, THEN conjunct2, THEN conjunct2] blank2
    by simp
  moreover have "client_origin blank_window = worker_origin blank_then_app"
    by (simp add: blank_window_def blank_then_app_def)
  ultimately show ?thesis using m1 m2 by simp
qed

text \<open>
  C10 as stated fails: no window of another origin is ever focused, whatever its URL
  contains, since \<^verbatim>\<open>clients.matchAll\<close> lists none. With a window open at
  \<^verbatim>\<open>https://evil.test/?next=https://app.test/overview\<close>, whose URL contains the worker's
  origin, a click opens a new window.
\<close>

theorem click_foreign_window_counterexample:
  "\<not> (\<exists>host c.
         c \<in> set (clients host) \<and>
         client_origin c \<noteq> worker_origin host \<and>
         (\<exists>a b. client_url c = a @ worker_origin host @ b) \<and>
         FocusClient c \<in> set (fst (notificationclick_handler host))) \<and>
   evil_window \<in> set (clients foreign_window) \<and>
   client_origin evil_window \<noteq> worker_origin foreign_window \<and>
   includes_js (client_url evil_window) (worker_origin foreign_window) \<and>
   notificationclick_handler foreign_window =
     ([CloseNotification, OpenWindow ''/overview''], Fulfilled)"
proof -
  have "\<not> (\<exists>host c.
         c \<in> set (clients host) \<and>
         client_origin c \<noteq> worker_origin host \<and>
         (\<exists>a b. client_url c = a @ worker_origin host @ b) \<and>
         FocusClient c \<in> set (fst (notificationclick_handler host)))"
  proof
    assume "\<exists>host c.
         c \<in> set (clients host) \<and>
         client_origin c \<noteq> worker_origin host \<and>
         (\<exists>a b. client_url c = a @ worker_origin host @ b) \<and>
         FocusClient c \<in> set (fst (notificationclick_handler host))"
    then obtain host c where
      other: "client_origin c \<noteq> worker_origin host"
      and focus: "FocusClient c \<in> set (fst (notificationclick_handler host))"
      by blast
    from click_focus_found [OF focus] obtain cs where
      m: "matchAll host True (Some WindowClient) = Inr cs"
      and f: "find_client (worker_origin host) cs = Some c"
      by blast
    from find_client_Some [OF f] have "c \<in> set cs" by simp
    from matchAll_same_origin [OF m this] other show False by simp
  qed
  moreover have "notificationclick_handler foreign_window =
     ([CloseNotification, OpenWindow ''/overview''], Fulfilled)"
    by (simp add: notificationclick_handler_def matchAll_def foreign_window_def evil_window_def)
  moreover have "includes_js (client_url evil_window) (worker_origin foreign_window)"
    by (simp add: foreign_window_def evil_window_def)
  ultimately show ?thesis
    by (simp add: foreign_window_def evil_window_def)
qed

end
